theory Spec2Isabelle
  imports Main
begin

section \<open>Data model of server.js\<close>

text \<open>
  The three Mongoose schemas of \<^verbatim>\<open>server.js\<close> become records. An ObjectId is an
  opaque identifier. A route parameter reaches a handler as a string, and Mongoose casts
  it to an ObjectId; the handlers are written first on ids that have been cast, and
  then, in the section on route parameters, on the strings, with the cast and its
  failure. Body values are taken after their cast to the schema's types. A \<^verbatim>\<open>Date\<close> is
  a number of milliseconds.
\<close>

type_synonym objectId = nat
type_synonym date = nat

record user =
  username :: string
  email :: string
  password :: string
  thoughts :: "objectId list"
  friends :: "objectId list"

record thought =
  thoughtText :: string
  thought_createdAt :: date
  thought_username :: string
  reactions :: "objectId list"

record reaction =
  reactionBody :: string
  reaction_createdAt :: date
  reaction_username :: string

text \<open>
  A collection keeps its documents in insertion order, keyed by \<^verbatim>\<open>_id\<close>. The
  database \<^verbatim>\<open>socialNetworkDB\<close> holds one collection per model.
\<close>

type_synonym 'a collection = "(objectId \<times> 'a) list"

record db =
  Users :: "user collection"
  Thoughts :: "thought collection"
  Reactions :: "reaction collection"

text \<open>
  \<^verbatim>\<open>req.body\<close> after \<^verbatim>\<open>express.json()\<close>, restricted to the paths of the schema (strict
  mode drops every other key); an absent key is \<open>None\<close>.
\<close>

record userBody =
  b_username :: "string option"
  b_email :: "string option"
  b_password :: "string option"
  b_thoughts :: "objectId list option"
  b_friends :: "objectId list option"

record reactionBody_fields =
  b_reactionBody :: "string option"
  b_reaction_createdAt :: "date option"
  b_reaction_username :: "string option"

text \<open>
  What a handler can throw. \<open>TypeError\<close> is the JavaScript runtime's error for a property
  read on \<^verbatim>\<open>null\<close>; \<open>ValidationError\<close> is Mongoose's error for a failed \<^verbatim>\<open>required\<close>
  validator; \<open>DuplicateKeyError\<close> is the store's error for a unique index. \<open>NotFoundError\<close>
  is the error the specification names; no handler of \<^verbatim>\<open>server.js\<close> raises it.
  \<open>CastError\<close> is Mongoose's error for a string that is not an ObjectId.
\<close>

datatype error = ValidationError | DuplicateKeyError | TypeError | NotFoundError | CastError

datatype json =
    NoBody
  | JsonNull
  | UserDoc objectId user
  | ThoughtDoc objectId thought
  | ReactionDoc objectId reaction

record response =
  status :: nat
  body :: json

type_synonym outcome = "(error + response) \<times> db"

section \<open>The store operations used by the handlers\<close>

definition findById :: "'a collection \<Rightarrow> objectId \<Rightarrow> 'a option" where
  "findById c i = map_of c i"

definition insertOne :: "'a collection \<Rightarrow> objectId \<Rightarrow> 'a \<Rightarrow> error + 'a collection" where
  "insertOne c i d = (if i \<in> set (map fst c) then Inl DuplicateKeyError else Inr (c @ [(i, d)]))"

definition replaceOne :: "'a collection \<Rightarrow> objectId \<Rightarrow> 'a \<Rightarrow> 'a collection" where
  "replaceOne c i d = map (\<lambda>kv. if fst kv = i then (i, d) else kv) c"

definition deleteOne :: "'a collection \<Rightarrow> objectId \<Rightarrow> 'a collection" where
  "deleteOne c i = filter (\<lambda>kv. fst kv \<noteq> i) c"

text \<open>\<^verbatim>\<open>MongooseArray.push\<close> appends; \<^verbatim>\<open>MongooseArray.pull\<close> removes every equal element.\<close>

definition push :: "objectId list \<Rightarrow> objectId \<Rightarrow> objectId list" where
  "push xs x = xs @ [x]"

definition pull :: "objectId list \<Rightarrow> objectId \<Rightarrow> objectId list" where
  "pull xs x = filter (\<lambda>y. y \<noteq> x) xs"

text \<open>The \<^verbatim>\<open>required: true\<close> validator of a String path: present and not empty.\<close>

definition required :: "string option \<Rightarrow> bool" where
  "required v = (case v of None \<Rightarrow> False | Some x \<Rightarrow> x \<noteq> [])"

definition str :: "string option \<Rightarrow> string" where
  "str v = (case v of None \<Rightarrow> [] | Some x \<Rightarrow> x)"

definition ids :: "objectId list option \<Rightarrow> objectId list" where
  "ids v = (case v of None \<Rightarrow> [] | Some xs \<Rightarrow> xs)"

section \<open>The User model\<close>

text \<open>
  \<^verbatim>\<open>userSchema.pre('save', ...)\<close>: the password is replaced by its bcrypt hash exactly
  when \<^verbatim>\<open>this.isModified('password')\<close>. \<^verbatim>\<open>bcrypt.hash(_, 10)\<close> is a parameter.
\<close>

definition userSchema_pre_save :: "(string \<Rightarrow> string) \<Rightarrow> bool \<Rightarrow> user \<Rightarrow> user" where
  "userSchema_pre_save bcrypt_hash isModified_password this =
     (if isModified_password then this\<lparr>password := bcrypt_hash (password this)\<rparr> else this)"

definition User_validate :: "user \<Rightarrow> bool" where
  "User_validate u = (username u \<noteq> [] \<and> email u \<noteq> [] \<and> password u \<noteq> [])"

definition email_taken :: "user collection \<Rightarrow> objectId \<Rightarrow> string \<Rightarrow> bool" where
  "email_taken c i e = (e \<in> set (map (\<lambda>kv. email (snd kv)) (filter (\<lambda>kv. fst kv \<noteq> i) c)))"

text \<open>
  \<^verbatim>\<open>User.create(req.body)\<close>: build the document (array paths default to empty),
  validate, run the pre-save hook on a document whose password is newly set, insert.
  \<open>newId\<close> is the ObjectId generated for the document.
\<close>

definition User_create ::
  "(string \<Rightarrow> string) \<Rightarrow> objectId \<Rightarrow> userBody \<Rightarrow> db \<Rightarrow> error + (user \<times> db)" where
  "User_create bcrypt_hash newId b s =
     (if \<not> (required (b_username b) \<and> required (b_email b) \<and> required (b_password b))
      then Inl ValidationError
      else
        let doc = userSchema_pre_save bcrypt_hash True
                    \<lparr>username = str (b_username b), email = str (b_email b),
                     password = str (b_password b),
                     thoughts = ids (b_thoughts b), friends = ids (b_friends b)\<rparr>
        in if email_taken (Users s) newId (email doc) then Inl DuplicateKeyError
           else (case insertOne (Users s) newId doc of
                   Inl e \<Rightarrow> Inl e
                 | Inr c \<Rightarrow> Inr (doc, s\<lparr>Users := c\<rparr>)))"

text \<open>
  \<^verbatim>\<open>user.save()\<close> on a document loaded by \<^verbatim>\<open>findById\<close>: validation, then the pre-save
  hook, then the write. \<open>isModified_password\<close> says whether the handler assigned the
  password path since loading.
\<close>

definition User_save ::
  "(string \<Rightarrow> string) \<Rightarrow> bool \<Rightarrow> objectId \<Rightarrow> user \<Rightarrow> db \<Rightarrow> error + (user \<times> db)" where
  "User_save bcrypt_hash isModified_password i u s =
     (if \<not> User_validate u then Inl ValidationError
      else let doc = userSchema_pre_save bcrypt_hash isModified_password u
           in Inr (doc, s\<lparr>Users := replaceOne (Users s) i doc\<rparr>))"

text \<open>
  \<^verbatim>\<open>User.findByIdAndUpdate(id, req.body, { new: true })\<close>: a \<^verbatim>\<open>$set\<close> of the keys of the
  body, sent to the store directly. It runs neither the validators nor the
  \<^verbatim>\<open>save\<close> hooks, and inserts nothing when no document matches.
\<close>

definition set_user :: "userBody \<Rightarrow> user \<Rightarrow> user" where
  "set_user b u =
     \<lparr>username = (case b_username b of None \<Rightarrow> username u | Some x \<Rightarrow> x),
      email = (case b_email b of None \<Rightarrow> email u | Some x \<Rightarrow> x),
      password = (case b_password b of None \<Rightarrow> password u | Some x \<Rightarrow> x),
      thoughts = (case b_thoughts b of None \<Rightarrow> thoughts u | Some x \<Rightarrow> x),
      friends = (case b_friends b of None \<Rightarrow> friends u | Some x \<Rightarrow> x)\<rparr>"

definition User_findByIdAndUpdate ::
  "objectId \<Rightarrow> userBody \<Rightarrow> db \<Rightarrow> error + (user option \<times> db)" where
  "User_findByIdAndUpdate i b s =
     (case findById (Users s) i of
        None \<Rightarrow> Inr (None, s)
      | Some u \<Rightarrow>
          (case b_email b of
             None \<Rightarrow> Inr (Some (set_user b u), s\<lparr>Users := replaceOne (Users s) i (set_user b u)\<rparr>)
           | Some e \<Rightarrow>
               if email_taken (Users s) i e then Inl DuplicateKeyError
               else Inr (Some (set_user b u),
                         s\<lparr>Users := replaceOne (Users s) i (set_user b u)\<rparr>)))"

section \<open>User routes\<close>

text \<open>\<^verbatim>\<open>POST /users\<close>\<close>

definition post_users :: "(string \<Rightarrow> string) \<Rightarrow> objectId \<Rightarrow> userBody \<Rightarrow> db \<Rightarrow> outcome" where
  "post_users bcrypt_hash newId b s =
     (case User_create bcrypt_hash newId b s of
        Inl e \<Rightarrow> (Inl e, s)
      | Inr (u, s') \<Rightarrow> (Inr \<lparr>status = 201, body = UserDoc newId u\<rparr>, s'))"

text \<open>\<^verbatim>\<open>PUT /users/:userId\<close>; \<^verbatim>\<open>res.json(null)\<close> answers 200 with the body \<^verbatim>\<open>null\<close>.\<close>

definition put_users :: "objectId \<Rightarrow> userBody \<Rightarrow> db \<Rightarrow> outcome" where
  "put_users userId b s =
     (case User_findByIdAndUpdate userId b s of
        Inl e \<Rightarrow> (Inl e, s)
      | Inr (None, s') \<Rightarrow> (Inr \<lparr>status = 200, body = JsonNull\<rparr>, s')
      | Inr (Some u, s') \<Rightarrow> (Inr \<lparr>status = 200, body = UserDoc userId u\<rparr>, s'))"

text \<open>\<^verbatim>\<open>POST /users/:userId/friends/:friendId\<close>\<close>

definition post_friends :: "(string \<Rightarrow> string) \<Rightarrow> objectId \<Rightarrow> objectId \<Rightarrow> db \<Rightarrow> outcome" where
  "post_friends bcrypt_hash userId friendId s =
     (case findById (Users s) userId of
        None \<Rightarrow> (Inl TypeError, s)
      | Some u \<Rightarrow>
          (case User_save bcrypt_hash False userId (u\<lparr>friends := push (friends u) friendId\<rparr>) s of
             Inl e \<Rightarrow> (Inl e, s)
           | Inr (u', s') \<Rightarrow> (Inr \<lparr>status = 201, body = UserDoc userId u'\<rparr>, s')))"

text \<open>\<^verbatim>\<open>DELETE /users/:userId/friends/:friendId\<close>\<close>

definition delete_friends :: "(string \<Rightarrow> string) \<Rightarrow> objectId \<Rightarrow> objectId \<Rightarrow> db \<Rightarrow> outcome" where
  "delete_friends bcrypt_hash userId friendId s =
     (case findById (Users s) userId of
        None \<Rightarrow> (Inl TypeError, s)
      | Some u \<Rightarrow>
          (case User_save bcrypt_hash False userId (u\<lparr>friends := pull (friends u) friendId\<rparr>) s of
             Inl e \<Rightarrow> (Inl e, s)
           | Inr (u', s') \<Rightarrow> (Inr \<lparr>status = 204, body = NoBody\<rparr>, s')))"

section \<open>The Thought and Reaction models\<close>

definition Thought_validate :: "thought \<Rightarrow> bool" where
  "Thought_validate t = (thoughtText t \<noteq> [] \<and> thought_username t \<noteq> [])"

text \<open>\<^verbatim>\<open>thought.save()\<close> on a loaded document: validation, then the write (no hook).\<close>

definition Thought_save :: "objectId \<Rightarrow> thought \<Rightarrow> db \<Rightarrow> error + db" where
  "Thought_save i t s =
     (if \<not> Thought_validate t then Inl ValidationError
      else Inr (s\<lparr>Thoughts := replaceOne (Thoughts s) i t\<rparr>))"

text \<open>
  \<^verbatim>\<open>Reaction.create(req.body)\<close>: \<^verbatim>\<open>createdAt\<close> defaults to \<^verbatim>\<open>Date.now\<close>, here \<open>now\<close>;
  \<open>newId\<close> is the \<^verbatim>\<open>_id\<close> of the document: the ObjectId that Mongoose generates, or the
  \<^verbatim>\<open>_id\<close> of the body when the client sends one.
\<close>

definition Reaction_create ::
  "date \<Rightarrow> objectId \<Rightarrow> reactionBody_fields \<Rightarrow> db \<Rightarrow> error + (reaction \<times> db)" where
  "Reaction_create now newId b s =
     (if \<not> (required (b_reactionBody b) \<and> required (b_reaction_username b))
      then Inl ValidationError
      else
        let doc = \<lparr>reactionBody = str (b_reactionBody b),
                   reaction_createdAt =
                     (case b_reaction_createdAt b of None \<Rightarrow> now | Some d \<Rightarrow> d),
                   reaction_username = str (b_reaction_username b)\<rparr>
        in (case insertOne (Reactions s) newId doc of
              Inl e \<Rightarrow> Inl e
            | Inr c \<Rightarrow> Inr (doc, s\<lparr>Reactions := c\<rparr>)))"

section \<open>Thought routes\<close>

text \<open>\<^verbatim>\<open>DELETE /thoughts/:thoughtId\<close>\<close>

definition delete_thoughts :: "objectId \<Rightarrow> db \<Rightarrow> outcome" where
  "delete_thoughts thoughtId s =
     (Inr \<lparr>status = 204, body = NoBody\<rparr>, s\<lparr>Thoughts := deleteOne (Thoughts s) thoughtId\<rparr>)"

text \<open>
  \<^verbatim>\<open>POST /thoughts/:thoughtId/reactions\<close>: the thought is looked up, the reaction is
  created, and only then is \<^verbatim>\<open>thought.reactions\<close> read, which throws on \<^verbatim>\<open>null\<close>.
\<close>

definition post_reactions ::
  "date \<Rightarrow> objectId \<Rightarrow> objectId \<Rightarrow> reactionBody_fields \<Rightarrow> db \<Rightarrow> outcome" where
  "post_reactions now newId thoughtId b s =
     (case Reaction_create now newId b s of
        Inl e \<Rightarrow> (Inl e, s)
      | Inr (r, s1) \<Rightarrow>
          (case findById (Thoughts s) thoughtId of
             None \<Rightarrow> (Inl TypeError, s1)
           | Some t \<Rightarrow>
               (case Thought_save thoughtId (t\<lparr>reactions := push (reactions t) newId\<rparr>) s1 of
                  Inl e \<Rightarrow> (Inl e, s1)
                | Inr s2 \<Rightarrow> (Inr \<lparr>status = 201, body = ReactionDoc newId r\<rparr>, s2))))"

text \<open>\<^verbatim>\<open>DELETE /thoughts/:thoughtId/reactions/:reactionId\<close>\<close>

definition delete_reactions :: "objectId \<Rightarrow> objectId \<Rightarrow> db \<Rightarrow> outcome" where
  "delete_reactions thoughtId reactionId s =
     (case findById (Thoughts s) thoughtId of
        None \<Rightarrow> (Inl TypeError, s)
      | Some t \<Rightarrow>
          (case Thought_save thoughtId (t\<lparr>reactions := pull (reactions t) reactionId\<rparr>) s of
             Inl e \<Rightarrow> (Inl e, s)
           | Inr s1 \<Rightarrow>
               (Inr \<lparr>status = 204, body = NoBody\<rparr>,
                s1\<lparr>Reactions := deleteOne (Reactions s1) reactionId\<rparr>)))"

section \<open>Authentication middleware\<close>

text \<open>
  The request as the middleware sees it: \<^verbatim>\<open>req.headers['authorization']\<close> (absent is
  \<open>None\<close>) and \<^verbatim>\<open>req.user\<close>. The middleware either sends a status or calls \<^verbatim>\<open>next()\<close>.
\<close>

record 'c request =
  authorization :: "string option"
  user :: "'c option"

datatype 'c gate = SendStatus nat | Next "'c request"

text \<open>\<^verbatim>\<open>String.prototype.split\<close> with a one-character separator.\<close>

fun js_split :: "char \<Rightarrow> string \<Rightarrow> string list" where
  "js_split c [] = [[]]"
| "js_split c (x # xs) =
     (if x = c then [] # js_split c xs
      else (case js_split c xs of [] \<Rightarrow> [[x]] | w # ws \<Rightarrow> (x # w) # ws))"

text \<open>\<^verbatim>\<open>a[1]\<close>: \<^verbatim>\<open>undefined\<close> when the array has fewer than two elements.\<close>

fun index1 :: "'a list \<Rightarrow> 'a option" where
  "index1 (_ # y # _) = Some y"
| "index1 _ = None"

text \<open>
  \<^verbatim>\<open>authHeader && authHeader.split(' ')[1]\<close>: an absent header gives \<^verbatim>\<open>undefined\<close>,
  the empty string (falsy) gives itself, any other header its second part.
\<close>

definition header_token :: "string option \<Rightarrow> string option" where
  "header_token authHeader =
     (case authHeader of
        None \<Rightarrow> None
      | Some a \<Rightarrow> if a = [] then Some [] else index1 (js_split CHR '' '' a))"

text \<open>
  \<^verbatim>\<open>jwt.verify(token, process.env.JWT_SECRET, callback)\<close> is a parameter: \<open>None\<close> when
  the callback receives an error, the decoded payload otherwise.
\<close>

definition authenticateToken ::
  "(string \<Rightarrow> string option \<Rightarrow> 'c option) \<Rightarrow> string option \<Rightarrow> 'c request \<Rightarrow> 'c gate" where
  "authenticateToken jwt_verify JWT_SECRET req =
     (case header_token (authorization req) of
        None \<Rightarrow> SendStatus 401
      | Some token \<Rightarrow>
          (case jwt_verify token JWT_SECRET of
             None \<Rightarrow> SendStatus 403
           | Some decoded \<Rightarrow> Next (req\<lparr>user := Some decoded\<rparr>)))"

section \<open>Updating a thought\<close>

record thoughtBody =
  b_thoughtText :: "string option"
  b_thought_createdAt :: "date option"
  b_thought_username :: "string option"
  b_reactions :: "objectId list option"

definition set_thought :: "thoughtBody \<Rightarrow> thought \<Rightarrow> thought" where
  "set_thought b t =
     \<lparr>thoughtText = (case b_thoughtText b of None \<Rightarrow> thoughtText t | Some x \<Rightarrow> x),
      thought_createdAt =
        (case b_thought_createdAt b of None \<Rightarrow> thought_createdAt t | Some x \<Rightarrow> x),
      thought_username =
        (case b_thought_username b of None \<Rightarrow> thought_username t | Some x \<Rightarrow> x),
      reactions = (case b_reactions b of None \<Rightarrow> reactions t | Some x \<Rightarrow> x)\<rparr>"

text \<open>
  \<^verbatim>\<open>Thought.findByIdAndUpdate(id, req.body, { new: true })\<close>: as for users, a \<^verbatim>\<open>$set\<close>
  without validators; the thought schema has no unique index.
\<close>

definition Thought_findByIdAndUpdate :: "objectId \<Rightarrow> thoughtBody \<Rightarrow> db \<Rightarrow> thought option \<times> db" where
  "Thought_findByIdAndUpdate i b s =
     (case findById (Thoughts s) i of
        None \<Rightarrow> (None, s)
      | Some t \<Rightarrow> (Some (set_thought b t),
                   s\<lparr>Thoughts := replaceOne (Thoughts s) i (set_thought b t)\<rparr>))"

text \<open>\<^verbatim>\<open>PUT /thoughts/:thoughtId\<close>\<close>

definition put_thoughts :: "objectId \<Rightarrow> thoughtBody \<Rightarrow> db \<Rightarrow> outcome" where
  "put_thoughts thoughtId b s =
     (case Thought_findByIdAndUpdate thoughtId b s of
        (None, s') \<Rightarrow> (Inr \<lparr>status = 200, body = JsonNull\<rparr>, s')
      | (Some t, s') \<Rightarrow> (Inr \<lparr>status = 200, body = ThoughtDoc thoughtId t\<rparr>, s'))"

section \<open>Route parameters\<close>

text \<open>
  \<^verbatim>\<open>req.params\<close> holds strings. Mongoose casts such a string to an ObjectId when the
  handler hands it to a query (\<^verbatim>\<open>findById\<close>, \<^verbatim>\<open>findByIdAndUpdate\<close>, \<^verbatim>\<open>findByIdAndDelete\<close>)
  or to an array method (\<^verbatim>\<open>push\<close>, \<^verbatim>\<open>pull\<close>), and throws a \<open>CastError\<close> when the string
  is not one. The cast is the parameter \<open>castObjectId\<close>; each route below performs the
  casts in the order in which the handler reaches them and then runs the handler on the
  ids.
\<close>

text \<open>\<^verbatim>\<open>PUT /users/:userId\<close>\<close>

definition route_put_users ::
  "(string \<Rightarrow> objectId option) \<Rightarrow> string \<Rightarrow> userBody \<Rightarrow> db \<Rightarrow> outcome" where
  "route_put_users castObjectId userId b s =
     (case castObjectId userId of
        None \<Rightarrow> (Inl CastError, s)
      | Some i \<Rightarrow> put_users i b s)"

text \<open>
  \<^verbatim>\<open>POST /users/:userId/friends/:friendId\<close>: \<^verbatim>\<open>userId\<close> is cast by \<^verbatim>\<open>findById\<close>;
  \<^verbatim>\<open>friendId\<close> is cast by \<^verbatim>\<open>push\<close>, which is reached only after \<^verbatim>\<open>user.friends\<close> has been
  read.
\<close>

definition route_post_friends ::
  "(string \<Rightarrow> string) \<Rightarrow> (string \<Rightarrow> objectId option) \<Rightarrow> string \<Rightarrow> string \<Rightarrow> db \<Rightarrow> outcome" where
  "route_post_friends bcrypt_hash castObjectId userId friendId s =
     (case castObjectId userId of
        None \<Rightarrow> (Inl CastError, s)
      | Some i \<Rightarrow>
          (case findById (Users s) i of
             None \<Rightarrow> (Inl TypeError, s)
           | Some u \<Rightarrow>
               (case castObjectId friendId of
                  None \<Rightarrow> (Inl CastError, s)
                | Some f \<Rightarrow> post_friends bcrypt_hash i f s)))"

text \<open>\<^verbatim>\<open>DELETE /users/:userId/friends/:friendId\<close>, with \<^verbatim>\<open>pull\<close> in the place of \<^verbatim>\<open>push\<close>.\<close>

definition route_delete_friends ::
  "(string \<Rightarrow> string) \<Rightarrow> (string \<Rightarrow> objectId option) \<Rightarrow> string \<Rightarrow> string \<Rightarrow> db \<Rightarrow> outcome" where
  "route_delete_friends bcrypt_hash castObjectId userId friendId s =
     (case castObjectId userId of
        None \<Rightarrow> (Inl CastError, s)
      | Some i \<Rightarrow>
          (case findById (Users s) i of
             None \<Rightarrow> (Inl TypeError, s)
           | Some u \<Rightarrow>
               (case castObjectId friendId of
                  None \<Rightarrow> (Inl CastError, s)
                | Some f \<Rightarrow> delete_friends bcrypt_hash i f s)))"

text \<open>\<^verbatim>\<open>DELETE /thoughts/:thoughtId\<close>\<close>

definition route_delete_thoughts ::
  "(string \<Rightarrow> objectId option) \<Rightarrow> string \<Rightarrow> db \<Rightarrow> outcome" where
  "route_delete_thoughts castObjectId thoughtId s =
     (case castObjectId thoughtId of
        None \<Rightarrow> (Inl CastError, s)
      | Some i \<Rightarrow> delete_thoughts i s)"

text \<open>
  \<^verbatim>\<open>POST /thoughts/:thoughtId/reactions\<close>: \<^verbatim>\<open>thoughtId\<close> is cast by \<^verbatim>\<open>findById\<close>, before
  \<^verbatim>\<open>Reaction.create\<close> runs.
\<close>

definition route_post_reactions ::
  "date \<Rightarrow> objectId \<Rightarrow> (string \<Rightarrow> objectId option) \<Rightarrow> string \<Rightarrow> reactionBody_fields \<Rightarrow> db
     \<Rightarrow> outcome" where
  "route_post_reactions now newId castObjectId thoughtId b s =
     (case castObjectId thoughtId of
        None \<Rightarrow> (Inl CastError, s)
      | Some i \<Rightarrow> post_reactions now newId i b s)"

text \<open>
  \<^verbatim>\<open>DELETE /thoughts/:thoughtId/reactions/:reactionId\<close>: \<^verbatim>\<open>thoughtId\<close> is cast by
  \<^verbatim>\<open>findById\<close>; \<^verbatim>\<open>reactionId\<close> is cast by \<^verbatim>\<open>pull\<close>, reached after \<^verbatim>\<open>thought.reactions\<close> has
  been read.
\<close>

definition route_delete_reactions ::
  "(string \<Rightarrow> objectId option) \<Rightarrow> string \<Rightarrow> string \<Rightarrow> db \<Rightarrow> outcome" where
  "route_delete_reactions castObjectId thoughtId reactionId s =
     (case castObjectId thoughtId of
        None \<Rightarrow> (Inl CastError, s)
      | Some i \<Rightarrow>
          (case findById (Thoughts s) i of
             None \<Rightarrow> (Inl TypeError, s)
           | Some t \<Rightarrow>
               (case castObjectId reactionId of
                  None \<Rightarrow> (Inl CastError, s)
                | Some r \<Rightarrow> delete_reactions i r s)))"

section \<open>Example data\<close>

text \<open>A stand-in for \<^verbatim>\<open>bcrypt.hash\<close> on concrete inputs: it prefixes the bcrypt header.\<close>

definition toy_hash :: "string \<Rightarrow> string" where
  "toy_hash p = ''$2b$10$'' @ p"

definition empty_db :: db where
  "empty_db = \<lparr>Users = [], Thoughts = [], Reactions = []\<rparr>"

definition alice_body :: userBody where
  "alice_body = \<lparr>b_username = Some ''a'', b_email = Some ''a@x.com'', b_password = Some ''p'',
                 b_thoughts = None, b_friends = None\<rparr>"

definition alice :: user where
  "alice = \<lparr>username = ''a'', email = ''a@x.com'', password = toy_hash ''p'',
            thoughts = [], friends = [2]\<rparr>"

definition alice_db :: db where
  "alice_db = \<lparr>Users = [(1, alice)], Thoughts = [], Reactions = []\<rparr>"

definition password_body :: userBody where
  "password_body = \<lparr>b_username = None, b_email = None, b_password = Some ''hunter2'',
                    b_thoughts = None, b_friends = None\<rparr>"

definition friends_set :: "db \<Rightarrow> objectId \<Rightarrow> objectId set" where
  "friends_set s i = (case findById (Users s) i of None \<Rightarrow> {} | Some u \<Rightarrow> set (friends u))"

definition hi_body :: reactionBody_fields where
  "hi_body = \<lparr>b_reactionBody = Some ''hi'', b_reaction_createdAt = None,
              b_reaction_username = Some ''b''\<rparr>"

definition hi :: reaction where
  "hi = \<lparr>reactionBody = ''hi'', reaction_createdAt = 1000, reaction_username = ''b''\<rparr>"

definition post5 :: thought where
  "post5 = \<lparr>thoughtText = ''first'', thought_createdAt = 10, thought_username = ''a'',
            reactions = [8]\<rparr>"

definition post6 :: thought where
  "post6 = \<lparr>thoughtText = ''second'', thought_createdAt = 20, thought_username = ''a'',
            reactions = [9]\<rparr>"

definition wow :: reaction where
  "wow = \<lparr>reactionBody = ''wow'', reaction_createdAt = 30, reaction_username = ''c''\<rparr>"

definition thoughts_db :: db where
  "thoughts_db = \<lparr>Users = [(1, alice)], Thoughts = [(5, post5), (6, post6)],
                  Reactions = [(8, wow), (9, wow)]\<rparr>"

definition toy_verify :: "string \<Rightarrow> string option \<Rightarrow> string option" where
  "toy_verify token secret =
     (if secret = Some ''s3cret'' \<and> token = ''good'' then Some ''alice'' else None)"

text \<open>
  A stand-in for the cast on concrete inputs: a string of 24 lower-case hexadecimal
  digits is the ObjectId with that value, any other string is not an ObjectId.
\<close>

definition hexdigit :: "char \<Rightarrow> nat option" where
  "hexdigit c = map_of (zip ''0123456789abcdef'' [0, 1, 2, 3, 4, 5, 6, 7, 8, 9, 10, 11, 12, 13, 14, 15]) c"

fun hexvalue :: "nat \<Rightarrow> string \<Rightarrow> nat option" where
  "hexvalue n [] = Some n"
| "hexvalue n (c # cs) =
     (case hexdigit c of None \<Rightarrow> None | Some d \<Rightarrow> hexvalue (16 * n + d) cs)"

definition toy_cast :: "string \<Rightarrow> objectId option" where
  "toy_cast p = (if length p = 24 then hexvalue 0 p else None)"

definition hex_id :: "string \<Rightarrow> string" where
  "hex_id d = ''0000000000000000000000'' @ d"

definition blank_text_body :: thoughtBody where
  "blank_text_body = \<lparr>b_thoughtText = Some [], b_thought_createdAt = None,
                      b_thought_username = None, b_reactions = None\<rparr>"

definition blank_db :: db where
  "blank_db = \<lparr>Users = [(1, alice)],
               Thoughts = [(5, post5\<lparr>thoughtText := []\<rparr>), (6, post6)],
               Reactions = [(8, wow), (9, wow)]\<rparr>"

definition dangling_db :: db where
  "dangling_db = \<lparr>Users = [(1, alice)], Thoughts = [(5, post5), (6, post6)],
                  Reactions = [(9, wow)]\<rparr>"

section \<open>Facts about the store operations\<close>

lemma findById_insertOne:
  "insertOne c i d = Inr c' \<Longrightarrow> findById c' i = Some d"
proof -
  assume a: "insertOne c i d = Inr c'"
  then have n: "map_of c i = None" and c': "c' = c @ [(i, d)]"
    by (auto simp: insertOne_def map_of_eq_None_iff split: if_splits)
  then show ?thesis
    by (simp add: findById_def map_add_def)
qed

lemma findById_replaceOne:
  "findById (replaceOne c i d) j = (if j = i \<and> findById c i \<noteq> None then Some d else findById c j)"
  by (induction c) (auto simp: replaceOne_def findById_def)

lemma findById_deleteOne:
  "findById (deleteOne c i) j = (if j = i then None else findById c j)"
  by (induction c) (auto simp: deleteOne_def findById_def)

lemma pull_push_fresh: "x \<notin> set xs \<Longrightarrow> pull (push xs x) x = xs"
  by (induction xs) (auto simp: pull_def push_def)

lemma pull_push: "pull (push xs x) x = pull xs x"
  by (simp add: pull_def push_def)

lemma pull_absent: "x \<notin> set xs \<Longrightarrow> pull xs x = xs"
  by (induction xs) (auto simp: pull_def)

lemma not_in_pull: "x \<notin> set (pull xs x)"
  by (simp add: pull_def)

lemma put_users_sets_password:
  assumes "findById (Users s) userId = Some u" and "b_password b = Some p" and "b_email b = None"
  shows "put_users userId b s
           = (Inr \<lparr>status = 200, body = UserDoc userId (set_user b u)\<rparr>,
              s\<lparr>Users := replaceOne (Users s) userId (set_user b u)\<rparr>)"
    and "password (set_user b u) = p"
  using assms by (simp_all add: put_users_def User_findByIdAndUpdate_def set_user_def)

lemma friend_routes_keep_password:
  assumes "findById (Users s) userId = Some u"
  shows "post_friends bcrypt_hash userId friendId s = (Inr r, s') \<Longrightarrow>
           map_option password (findById (Users s') userId) = Some (password u)"
    and "delete_friends bcrypt_hash userId friendId s = (Inr r, s') \<Longrightarrow>
           map_option password (findById (Users s') userId) = Some (password u)"
  using assms
  by (auto simp: post_friends_def delete_friends_def User_save_def userSchema_pre_save_def
      Let_def findById_replaceOne split: if_splits)

lemma Reaction_create_ok:
  assumes "required (b_reactionBody b)" and "required (b_reaction_username b)"
    and "newId \<notin> set (map fst (Reactions s))"
  shows "\<exists>x. Reaction_create now newId b s = Inr (x, s\<lparr>Reactions := Reactions s @ [(newId, x)]\<rparr>)
            \<and> reactionBody x = str (b_reactionBody b)
            \<and> findById (Reactions s @ [(newId, x)]) newId = Some x"
proof -
  let ?x = "\<lparr>reactionBody = str (b_reactionBody b),
             reaction_createdAt = (case b_reaction_createdAt b of None \<Rightarrow> now | Some d \<Rightarrow> d),
             reaction_username = str (b_reaction_username b)\<rparr>"
  have i: "insertOne (Reactions s) newId ?x = Inr (Reactions s @ [(newId, ?x)])"
    using assms(3) by (simp add: insertOne_def)
  have c: "Reaction_create now newId b s = Inr (?x, s\<lparr>Reactions := Reactions s @ [(newId, ?x)]\<rparr>)"
    using assms(1,2) i by (simp add: Reaction_create_def Let_def)
  from c findById_insertOne [OF i] show ?thesis by auto
qed

lemma post_friends_alice:
  "post_friends toy_hash 1 3 alice_db
     = (Inr \<lparr>status = 201, body = UserDoc 1 (alice\<lparr>friends := [2, 3]\<rparr>)\<rparr>,
        alice_db\<lparr>Users := [(1, alice\<lparr>friends := [2, 3]\<rparr>)]\<rparr>)"
  by (simp add: post_friends_def User_save_def User_validate_def userSchema_pre_save_def
      findById_def alice_db_def alice_def replaceOne_def push_def toy_hash_def Let_def)

lemma post_reactions_hi:
  "post_reactions 1000 12 5 hi_body thoughts_db
     = (Inr \<lparr>status = 201, body = ReactionDoc 12 hi\<rparr>,
        thoughts_db\<lparr>Thoughts := [(5, post5\<lparr>reactions := [8, 12]\<rparr>), (6, post6)],
                    Reactions := [(8, wow), (9, wow), (12, hi)]\<rparr>)"
  by (simp add: post_reactions_def Reaction_create_def Thought_save_def Thought_validate_def
      insertOne_def replaceOne_def findById_def push_def required_def str_def Let_def
      thoughts_db_def hi_body_def hi_def post5_def post6_def)

section \<open>Facts about the casts\<close>

lemma toy_cast_hex_id:
  "toy_cast (hex_id ''01'') = Some 1" "toy_cast (hex_id ''03'') = Some 3"
  "toy_cast (hex_id ''05'') = Some 5" "toy_cast (hex_id ''07'') = Some 7"
  "toy_cast (hex_id ''08'') = Some 8" "toy_cast (hex_id ''09'') = Some 9"
  "toy_cast (hex_id ''0c'') = Some 12" "toy_cast ''abc'' = None"
  by (simp_all add: toy_cast_def hex_id_def hexdigit_def)

lemma route_put_users_cast:
  "castObjectId userId = Some i \<Longrightarrow> route_put_users castObjectId userId b s = put_users i b s"
  by (simp add: route_put_users_def)

lemma route_delete_thoughts_cast:
  "castObjectId thoughtId = Some i \<Longrightarrow>
     route_delete_thoughts castObjectId thoughtId s = delete_thoughts i s"
  by (simp add: route_delete_thoughts_def)

lemma route_post_friends_cast:
  "castObjectId userId = Some i \<Longrightarrow> castObjectId friendId = Some f \<Longrightarrow>
     route_post_friends bcrypt_hash castObjectId userId friendId s = post_friends bcrypt_hash i f s"
  by (simp add: route_post_friends_def post_friends_def split: option.splits)

lemma route_delete_friends_cast:
  "castObjectId userId = Some i \<Longrightarrow> castObjectId friendId = Some f \<Longrightarrow>
     route_delete_friends bcrypt_hash castObjectId userId friendId s
       = delete_friends bcrypt_hash i f s"
  by (simp add: route_delete_friends_def delete_friends_def split: option.splits)

lemma route_post_reactions_cast:
  "castObjectId thoughtId = Some i \<Longrightarrow>
     route_post_reactions now newId castObjectId thoughtId b s = post_reactions now newId i b s"
  by (simp add: route_post_reactions_def)

lemma route_delete_reactions_cast:
  "castObjectId thoughtId = Some i \<Longrightarrow> castObjectId reactionId = Some r \<Longrightarrow>
     route_delete_reactions castObjectId thoughtId reactionId s = delete_reactions i r s"
  by (simp add: route_delete_reactions_def delete_reactions_def split: option.splits)

section \<open>Facts about the header\<close>

lemma js_split_no_sep: "c \<notin> set xs \<Longrightarrow> js_split c xs = [xs]"
  by (induction xs) auto

lemma js_split_first: "c \<notin> set a \<Longrightarrow> js_split c (a @ c # b) = a # js_split c b"
  by (induction a) auto

lemma js_split_not_Nil: "js_split c xs \<noteq> []"
  by (induction xs) (auto split: list.splits)

lemma hd_js_split: "hd (js_split c xs) = takeWhile (\<lambda>x. x \<noteq> c) xs"
  by (induction xs) (auto simp: js_split_not_Nil split: list.splits)

lemma index1_Cons: "ys \<noteq> [] \<Longrightarrow> index1 (x # ys) = Some (hd ys)"
  by (cases ys) auto

lemma header_token_absent: "header_token None = None"
  by (simp add: header_token_def)

lemma header_token_one_field:
  "a \<noteq> [] \<Longrightarrow> CHR '' '' \<notin> set a \<Longrightarrow> header_token (Some a) = None"
  by (simp add: header_token_def js_split_no_sep)

lemma header_token_empty: "header_token (Some []) = Some []"
  by (simp add: header_token_def)

lemma header_token_second_field:
  "CHR '' '' \<notin> set scheme \<Longrightarrow>
     header_token (Some (scheme @ CHR '' '' # rest))
       = Some (takeWhile (\<lambda>x. x \<noteq> CHR '' '') rest)"
  by (simp add: header_token_def js_split_first index1_Cons js_split_not_Nil hd_js_split)

lemma header_shape:
  "a = [] \<or> (a \<noteq> [] \<and> CHR '' '' \<notin> set a)
     \<or> (\<exists>scheme rest. a = scheme @ CHR '' '' # rest \<and> CHR '' '' \<notin> set scheme)"
proof (cases "CHR '' '' \<in> set a")
  case True
  then show ?thesis using split_list_first [of "CHR '' ''" a] by blast
next
  case False
  then show ?thesis by blast
qed

section \<open>The handlers on ids that have been cast\<close>

lemma friends_round_trip_on_ids:
  assumes "findById (Users s) userId = Some u" and "User_validate u"
  shows "\<exists>u1 s1 s2.
           post_friends bcrypt_hash userId friendId s
             = (Inr \<lparr>status = 201, body = UserDoc userId u1\<rparr>, s1)
         \<and> delete_friends bcrypt_hash userId friendId s1
             = (Inr \<lparr>status = 204, body = NoBody\<rparr>, s2)
         \<and> findById (Users s2) userId = Some (u\<lparr>friends := pull (friends u) friendId\<rparr>)
         \<and> friends_set s2 userId = friends_set s userId - {friendId}
         \<and> (friendId \<notin> set (friends u) \<longrightarrow> findById (Users s2) userId = Some u)"
proof -
  let ?u1 = "u\<lparr>friends := push (friends u) friendId\<rparr>"
  let ?s1 = "s\<lparr>Users := replaceOne (Users s) userId ?u1\<rparr>"
  let ?u2 = "u\<lparr>friends := pull (friends u) friendId\<rparr>"
  let ?s2 = "?s1\<lparr>Users := replaceOne (Users ?s1) userId ?u2\<rparr>"
  have v1: "User_validate ?u1" using assms(2) by (simp add: User_validate_def)
  have p1: "post_friends bcrypt_hash userId friendId s
             = (Inr \<lparr>status = 201, body = UserDoc userId ?u1\<rparr>, ?s1)"
    using assms(1) v1 by (simp add: post_friends_def User_save_def userSchema_pre_save_def Let_def)
  have f1: "findById (Users ?s1) userId = Some ?u1"
    using assms(1) by (simp add: findById_replaceOne)
  have u12: "?u1\<lparr>friends := pull (friends ?u1) friendId\<rparr> = ?u2"
    by (simp add: pull_push)
  have v2: "User_validate ?u2" using assms(2) by (simp add: User_validate_def)
  have p2: "delete_friends bcrypt_hash userId friendId ?s1
             = (Inr \<lparr>status = 204, body = NoBody\<rparr>, ?s2)"
    using f1 v2 u12 by (simp add: delete_friends_def User_save_def userSchema_pre_save_def Let_def)
  have f2: "findById (Users ?s2) userId = Some ?u2"
    using f1 by (simp add: findById_replaceOne)
  have r: "friendId \<notin> set (friends u) \<Longrightarrow> ?u2 = u"
    by (simp add: pull_absent)
  have st: "friends_set ?s2 userId = friends_set s userId - {friendId}"
    using f2 assms(1) by (auto simp: friends_set_def pull_def)
  from p1 p2 f2 r st show ?thesis by metis
qed

lemma post_reactions_cases_on_ids:
  assumes "required (b_reactionBody b)" and "required (b_reaction_username b)"
    and "newId \<notin> set (map fst (Reactions s))"
  shows "(findById (Thoughts s) thoughtId = None \<longrightarrow>
            (\<exists>x s'. post_reactions now newId thoughtId b s = (Inl TypeError, s')
                  \<and> findById (Reactions s') newId = Some x
                  \<and> reactionBody x = str (b_reactionBody b)
                  \<and> Thoughts s' = Thoughts s))
       \<and> (\<forall>t. findById (Thoughts s) thoughtId = Some t \<and> Thought_validate t \<longrightarrow>
            (\<exists>x s'. post_reactions now newId thoughtId b s
                       = (Inr \<lparr>status = 201, body = ReactionDoc newId x\<rparr>, s')
                  \<and> findById (Reactions s') newId = Some x
                  \<and> reactionBody x = str (b_reactionBody b)
                  \<and> findById (Thoughts s') thoughtId
                       = Some (t\<lparr>reactions := reactions t @ [newId]\<rparr>)))"
proof -
  from Reaction_create_ok [OF assms, of now] obtain x where
    c: "Reaction_create now newId b s = Inr (x, s\<lparr>Reactions := Reactions s @ [(newId, x)]\<rparr>)"
    and rb: "reactionBody x = str (b_reactionBody b)"
    and fx: "findById (Reactions s @ [(newId, x)]) newId = Some x"
    by blast
  let ?s1 = "s\<lparr>Reactions := Reactions s @ [(newId, x)]\<rparr>"
  have absent: "findById (Thoughts s) thoughtId = None \<Longrightarrow>
      post_reactions now newId thoughtId b s = (Inl TypeError, ?s1)"
    using c by (simp add: post_reactions_def)
  have present: "post_reactions now newId thoughtId b s
      = (Inr \<lparr>status = 201, body = ReactionDoc newId x\<rparr>,
         ?s1\<lparr>Thoughts := replaceOne (Thoughts ?s1) thoughtId (t\<lparr>reactions := reactions t @ [newId]\<rparr>)\<rparr>)"
    if "findById (Thoughts s) thoughtId = Some t" and "Thought_validate t" for t
    using c that by (simp add: post_reactions_def Thought_save_def Thought_validate_def push_def)
  show ?thesis
  proof (rule conjI)
    show "findById (Thoughts s) thoughtId = None \<longrightarrow>
            (\<exists>x s'. post_reactions now newId thoughtId b s = (Inl TypeError, s')
                  \<and> findById (Reactions s') newId = Some x
                  \<and> reactionBody x = str (b_reactionBody b)
                  \<and> Thoughts s' = Thoughts s)"
      using absent rb fx by auto
  next
    show "\<forall>t. findById (Thoughts s) thoughtId = Some t \<and> Thought_validate t \<longrightarrow>
            (\<exists>x s'. post_reactions now newId thoughtId b s
                       = (Inr \<lparr>status = 201, body = ReactionDoc newId x\<rparr>, s')
                  \<and> findById (Reactions s') newId = Some x
                  \<and> reactionBody x = str (b_reactionBody b)
                  \<and> findById (Thoughts s') thoughtId
                       = Some (t\<lparr>reactions := reactions t @ [newId]\<rparr>))"
    proof (intro allI impI)
      fix t assume t: "findById (Thoughts s) thoughtId = Some t \<and> Thought_validate t"
      then have "findById (replaceOne (Thoughts s) thoughtId (t\<lparr>reactions := reactions t @ [newId]\<rparr>)) thoughtId
                   = Some (t\<lparr>reactions := reactions t @ [newId]\<rparr>)"
        by (simp add: findById_replaceOne)
      with present [of t] t rb fx
      show "\<exists>x s'. post_reactions now newId thoughtId b s
                       = (Inr \<lparr>status = 201, body = ReactionDoc newId x\<rparr>, s')
                  \<and> findById (Reactions s') newId = Some x
                  \<and> reactionBody x = str (b_reactionBody b)
                  \<and> findById (Thoughts s') thoughtId
                       = Some (t\<lparr>reactions := reactions t @ [newId]\<rparr>)"
        by simp
    qed
  qed
qed

lemma delete_reactions_non_member_on_ids:
  assumes "findById (Thoughts s) thoughtId = Some t" and "Thought_validate t"
    and "reactionId \<notin> set (reactions t)"
  shows "\<exists>s'. delete_reactions thoughtId reactionId s = (Inr \<lparr>status = 204, body = NoBody\<rparr>, s')
            \<and> findById (Reactions s') reactionId = None
            \<and> findById (Thoughts s') thoughtId = Some t
            \<and> (\<forall>j. j \<noteq> reactionId \<longrightarrow> findById (Reactions s') j = findById (Reactions s) j)"
proof -
  have same: "t\<lparr>reactions := pull (reactions t) reactionId\<rparr> = t"
    using assms(3) by (simp add: pull_absent)
  have run: "delete_reactions thoughtId reactionId s
      = (Inr \<lparr>status = 204, body = NoBody\<rparr>,
         s\<lparr>Thoughts := replaceOne (Thoughts s) thoughtId t,
           Reactions := deleteOne (Reactions s) reactionId\<rparr>)"
    using assms(1,2) same by (simp add: delete_reactions_def Thought_save_def)
  show ?thesis
    using assms(1) by (simp add: run findById_deleteOne findById_replaceOne)
qed

lemma reaction_add_remove_on_ids:
  assumes "findById (Thoughts s) thoughtId = Some t" and "Thought_validate t"
  shows "(r \<in> set (reactions t) \<longrightarrow>
            (\<exists>t' s'. delete_reactions thoughtId r s = (Inr \<lparr>status = 204, body = NoBody\<rparr>, s')
                   \<and> findById (Thoughts s') thoughtId = Some t'
                   \<and> r \<notin> set (reactions t')
                   \<and> findById (Reactions s') r = None))
       \<and> (required (b_reactionBody b) \<and> required (b_reaction_username b)
            \<and> newId \<notin> set (map fst (Reactions s)) \<and> newId \<notin> set (reactions t) \<longrightarrow>
            (\<exists>x s1 t2 s2.
                 post_reactions now newId thoughtId b s
                   = (Inr \<lparr>status = 201, body = ReactionDoc newId x\<rparr>, s1)
               \<and> findById (Reactions s1) newId = Some x
               \<and> delete_reactions thoughtId newId s1 = (Inr \<lparr>status = 204, body = NoBody\<rparr>, s2)
               \<and> findById (Thoughts s2) thoughtId = Some t2
               \<and> reactions t2 = reactions t
               \<and> length (reactions t2) = length (reactions t)
               \<and> findById (Reactions s2) newId = None))"
proof (rule conjI; rule impI)
  assume "r \<in> set (reactions t)"
  let ?t' = "t\<lparr>reactions := pull (reactions t) r\<rparr>"
  have v: "Thought_validate ?t'" using assms(2) by (simp add: Thought_validate_def)
  have run: "delete_reactions thoughtId r s
      = (Inr \<lparr>status = 204, body = NoBody\<rparr>,
         s\<lparr>Thoughts := replaceOne (Thoughts s) thoughtId ?t',
           Reactions := deleteOne (Reactions s) r\<rparr>)"
    using assms(1) v by (simp add: delete_reactions_def Thought_save_def)
  show "\<exists>t' s'. delete_reactions thoughtId r s = (Inr \<lparr>status = 204, body = NoBody\<rparr>, s')
                   \<and> findById (Thoughts s') thoughtId = Some t'
                   \<and> r \<notin> set (reactions t')
                   \<and> findById (Reactions s') r = None"
    using assms(1) by (simp add: run findById_deleteOne findById_replaceOne not_in_pull)
next
  assume h: "required (b_reactionBody b) \<and> required (b_reaction_username b)
            \<and> newId \<notin> set (map fst (Reactions s)) \<and> newId \<notin> set (reactions t)"
  then have "\<exists>x. Reaction_create now newId b s = Inr (x, s\<lparr>Reactions := Reactions s @ [(newId, x)]\<rparr>)
            \<and> reactionBody x = str (b_reactionBody b)
            \<and> findById (Reactions s @ [(newId, x)]) newId = Some x"
    by (simp add: Reaction_create_ok)
  then obtain x where
    c: "Reaction_create now newId b s = Inr (x, s\<lparr>Reactions := Reactions s @ [(newId, x)]\<rparr>)"
    and fx: "findById (Reactions s @ [(newId, x)]) newId = Some x"
    by blast
  let ?t1 = "t\<lparr>reactions := push (reactions t) newId\<rparr>"
  let ?s1 = "s\<lparr>Reactions := Reactions s @ [(newId, x)],
               Thoughts := replaceOne (Thoughts s) thoughtId ?t1\<rparr>"
  have v1: "Thought_validate ?t1" using assms(2) by (simp add: Thought_validate_def)
  have p: "post_reactions now newId thoughtId b s
             = (Inr \<lparr>status = 201, body = ReactionDoc newId x\<rparr>, ?s1)"
    using c assms(1) v1 by (simp add: post_reactions_def Thought_save_def)
  have f1: "findById (Thoughts ?s1) thoughtId = Some ?t1"
    using assms(1) by (simp add: findById_replaceOne)
  have undo: "?t1\<lparr>reactions := pull (reactions ?t1) newId\<rparr> = t"
    using h by (simp add: pull_push_fresh)
  let ?s2 = "?s1\<lparr>Thoughts := replaceOne (Thoughts ?s1) thoughtId t,
                 Reactions := deleteOne (Reactions ?s1) newId\<rparr>"
  have d: "delete_reactions thoughtId newId ?s1 = (Inr \<lparr>status = 204, body = NoBody\<rparr>, ?s2)"
    using f1 undo assms(2) by (simp add: delete_reactions_def Thought_save_def)
  have f2: "findById (Thoughts ?s2) thoughtId = Some t"
    using assms(1) by (simp add: findById_replaceOne)
  have g: "findById (Reactions ?s2) newId = None"
    by (simp add: findById_deleteOne)
  have fx1: "findById (Reactions ?s1) newId = Some x" using fx by simp
  from p d f2 g fx1
  show "\<exists>x s1 t2 s2.
                 post_reactions now newId thoughtId b s
                   = (Inr \<lparr>status = 201, body = ReactionDoc newId x\<rparr>, s1)
               \<and> findById (Reactions s1) newId = Some x
               \<and> delete_reactions thoughtId newId s1 = (Inr \<lparr>status = 204, body = NoBody\<rparr>, s2)
               \<and> findById (Thoughts s2) thoughtId = Some t2
               \<and> reactions t2 = reactions t
               \<and> length (reactions t2) = length (reactions t)
               \<and> findById (Reactions s2) newId = None"
    by (intro exI [of _ x] exI [of _ ?s1] exI [of _ t] exI [of _ ?s2]) simp
qed

section \<open>Passwords\<close>

text \<open>
  C2. A user created by \<^verbatim>\<open>POST /users\<close> from a body with the plaintext password \<open>p\<close> is
  stored with the password \<open>bcrypt_hash p\<close>, which (the hash having no fixed point at
  \<open>p\<close>) is not the plaintext; the response carries the same document.
\<close>

theorem post_users_stores_hash:
  assumes "post_users bcrypt_hash newId b s = (Inr r, s')"
    and "b_password b = Some p"
    and "bcrypt_hash p \<noteq> p"
  shows "\<exists>u. findById (Users s') newId = Some u \<and> password u = bcrypt_hash p \<and>
             password u \<noteq> p \<and> r = \<lparr>status = 201, body = UserDoc newId u\<rparr>"
proof -
  from assms(1) obtain u where c: "User_create bcrypt_hash newId b s = Inr (u, s')"
    and r: "r = \<lparr>status = 201, body = UserDoc newId u\<rparr>"
    by (auto simp: post_users_def split: sum.splits prod.splits)
  from c assms(2) have pw: "password u = bcrypt_hash p"
    by (auto simp: User_create_def Let_def userSchema_pre_save_def str_def
             split: if_splits sum.splits)
  from c obtain c' where ins: "insertOne (Users s) newId u = Inr c'" and s': "s' = s\<lparr>Users := c'\<rparr>"
    by (auto simp: User_create_def Let_def split: if_splits sum.splits)
  from ins s' have "findById (Users s') newId = Some u"
    by (simp add: findById_insertOne)
  with pw r assms(3) show ?thesis by simp
qed

theorem post_users_stores_hash_witness:
  "post_users toy_hash 1 alice_body empty_db
     = (Inr \<lparr>status = 201, body = UserDoc 1 (alice\<lparr>friends := []\<rparr>)\<rparr>,
        empty_db\<lparr>Users := [(1, alice\<lparr>friends := []\<rparr>)]\<rparr>)
   \<and> b_password alice_body = Some ''p'' \<and> toy_hash ''p'' \<noteq> ''p''
   \<and> (\<exists>u. findById (Users (empty_db\<lparr>Users := [(1, alice\<lparr>friends := []\<rparr>)]\<rparr>)) 1 = Some u
          \<and> password u = toy_hash ''p'' \<and> password u \<noteq> ''p'')"
proof -
  have run: "post_users toy_hash 1 alice_body empty_db
     = (Inr \<lparr>status = 201, body = UserDoc 1 (alice\<lparr>friends := []\<rparr>)\<rparr>,
        empty_db\<lparr>Users := [(1, alice\<lparr>friends := []\<rparr>)]\<rparr>)"
    by (simp add: post_users_def User_create_def alice_body_def empty_db_def alice_def
        required_def str_def ids_def userSchema_pre_save_def email_taken_def insertOne_def Let_def)
  have pw: "b_password alice_body = Some ''p''" by (simp add: alice_body_def)
  have nf: "toy_hash ''p'' \<noteq> ''p''" by (simp add: toy_hash_def)
  from post_users_stores_hash [OF run pw nf] run pw nf show ?thesis by auto
qed

text \<open>
  C1. \<^verbatim>\<open>PUT /users/1\<close> with the body \<^verbatim>\<open>{password: "hunter2"}\<close> on a store holding user 1
  answers 200 and persists the submitted plaintext as the password: the update does not
  pass through the pre-save hook.
\<close>

theorem put_users_password_plaintext:
  "fst (put_users 1 password_body alice_db)
     = Inr \<lparr>status = 200, body = UserDoc 1 (alice\<lparr>password := ''hunter2''\<rparr>)\<rparr>
   \<and> map_option password (findById (Users (snd (put_users 1 password_body alice_db))) 1)
     = Some ''hunter2''"
  by (simp add: put_users_def User_findByIdAndUpdate_def findById_def alice_db_def
      password_body_def set_user_def replaceOne_def alice_def)

text \<open>
  C3 as the claim states it fails: \<^verbatim>\<open>PUT /users/7\<close> on a store without user 7 is not an
  error; the handler answers 200.
\<close>

theorem put_users_unknown_counterexample:
  "fst (put_users 7 password_body alice_db) = Inr \<lparr>status = 200, body = JsonNull\<rparr>
   \<and> fst (put_users 7 password_body alice_db) \<noteq> Inl NotFoundError
   \<and> findById (Users alice_db) 7 = None"
  by (simp add: put_users_def User_findByIdAndUpdate_def findById_def alice_db_def)

text \<open>
  C3, amended. When \<^verbatim>\<open>userId\<close> is an ObjectId absent from the users collection,
  \<^verbatim>\<open>PUT /users/:userId\<close> does not fail: it answers 200 with the body \<^verbatim>\<open>null\<close>. When
  \<^verbatim>\<open>userId\<close> is not an ObjectId, the handler throws a \<open>CastError\<close>. In both cases the
  whole store is left as it was.
\<close>

theorem route_put_users_unknown:
  "(castObjectId userId = None \<longrightarrow>
      route_put_users castObjectId userId b s = (Inl CastError, s))
   \<and> (\<forall>i. castObjectId userId = Some i \<and> findById (Users s) i = None \<longrightarrow>
      route_put_users castObjectId userId b s = (Inr \<lparr>status = 200, body = JsonNull\<rparr>, s))"
  by (simp add: route_put_users_def put_users_def User_findByIdAndUpdate_def)

theorem route_put_users_unknown_witness:
  "toy_cast ''abc'' = None
   \<and> route_put_users toy_cast ''abc'' password_body alice_db = (Inl CastError, alice_db)
   \<and> toy_cast (hex_id ''07'') = Some 7 \<and> findById (Users alice_db) 7 = None
   \<and> route_put_users toy_cast (hex_id ''07'') password_body alice_db
       = (Inr \<lparr>status = 200, body = JsonNull\<rparr>, alice_db)"
proof -
  have m: "toy_cast ''abc'' = None" by (rule toy_cast_hex_id)
  have w: "toy_cast (hex_id ''07'') = Some 7 \<and> findById (Users alice_db) 7 = None"
    by (simp add: toy_cast_hex_id findById_def alice_db_def)
  note bad = route_put_users_unknown [where castObjectId = toy_cast and userId = "''abc''",
      THEN conjunct1, rule_format, OF m]
  note good = route_put_users_unknown [where castObjectId = toy_cast
      and userId = "hex_id ''07''", THEN conjunct2, rule_format, OF w]
  from bad good m w show ?thesis by simp
qed

section \<open>Friends\<close>

text \<open>
  C5 as the claim states it fails: user 1 already has friend 2; after
  \<^verbatim>\<open>POST /users/1/friends/2\<close> and \<^verbatim>\<open>DELETE /users/1/friends/2\<close>, both successful, the
  friends of user 1 are empty, not \<open>{2}\<close> as before.
\<close>

theorem friends_round_trip_counterexample:
  "friends_set alice_db 1 = {2}
   \<and> fst (post_friends toy_hash 1 2 alice_db)
       = Inr \<lparr>status = 201, body = UserDoc 1 (alice\<lparr>friends := [2, 2]\<rparr>)\<rparr>
   \<and> fst (delete_friends toy_hash 1 2 (snd (post_friends toy_hash 1 2 alice_db)))
       = Inr \<lparr>status = 204, body = NoBody\<rparr>
   \<and> friends_set (snd (delete_friends toy_hash 1 2 (snd (post_friends toy_hash 1 2 alice_db)))) 1
       = {}"
  by (simp add: friends_set_def post_friends_def delete_friends_def User_save_def
      User_validate_def userSchema_pre_save_def findById_def alice_db_def alice_def
      replaceOne_def push_def pull_def toy_hash_def Let_def)

text \<open>
  C5, amended. Let \<^verbatim>\<open>userId\<close> and \<^verbatim>\<open>friendId\<close> be ObjectIds, and let the user exist and
  pass the validation that \<^verbatim>\<open>user.save()\<close> runs. Then adding the friend answers 201 with
  the user, removing it afterwards answers 204, and the user is left as before except
  that every occurrence of \<open>friendId\<close> is gone from \<open>friends\<close>: the friends set is the
  prior set without \<open>friendId\<close>, and the user document is exactly the prior one when
  \<open>friendId\<close> was not a member beforehand.
\<close>

theorem route_friends_round_trip:
  assumes "castObjectId userId = Some i" and "castObjectId friendId = Some f"
    and "findById (Users s) i = Some u" and "User_validate u"
  shows "\<exists>u1 s1 s2.
           route_post_friends bcrypt_hash castObjectId userId friendId s
             = (Inr \<lparr>status = 201, body = UserDoc i u1\<rparr>, s1)
         \<and> route_delete_friends bcrypt_hash castObjectId userId friendId s1
             = (Inr \<lparr>status = 204, body = NoBody\<rparr>, s2)
         \<and> findById (Users s2) i = Some (u\<lparr>friends := pull (friends u) f\<rparr>)
         \<and> friends_set s2 i = friends_set s i - {f}
         \<and> (f \<notin> set (friends u) \<longrightarrow> findById (Users s2) i = Some u)"
  using friends_round_trip_on_ids [OF assms(3,4), of bcrypt_hash f] assms(1,2)
  by (simp add: route_post_friends_cast route_delete_friends_cast)

theorem route_friends_round_trip_witness:
  "toy_cast (hex_id ''01'') = Some 1 \<and> toy_cast (hex_id ''03'') = Some 3
   \<and> findById (Users alice_db) 1 = Some alice \<and> User_validate alice
   \<and> 3 \<notin> set (friends alice)
   \<and> (\<exists>u1 s1 s2.
           route_post_friends toy_hash toy_cast (hex_id ''01'') (hex_id ''03'') alice_db
             = (Inr \<lparr>status = 201, body = UserDoc 1 u1\<rparr>, s1)
         \<and> route_delete_friends toy_hash toy_cast (hex_id ''01'') (hex_id ''03'') s1
             = (Inr \<lparr>status = 204, body = NoBody\<rparr>, s2)
         \<and> findById (Users s2) 1 = Some (alice\<lparr>friends := pull (friends alice) 3\<rparr>)
         \<and> friends_set s2 1 = friends_set alice_db 1 - {3}
         \<and> findById (Users s2) 1 = Some alice)"
proof -
  have c1: "toy_cast (hex_id ''01'') = Some 1" and c3: "toy_cast (hex_id ''03'') = Some 3"
    by (rule toy_cast_hex_id)+
  have h1: "findById (Users alice_db) 1 = Some alice"
    by (simp add: findById_def alice_db_def)
  have h2: "User_validate alice"
    by (simp add: User_validate_def alice_def toy_hash_def)
  have n: "3 \<notin> set (friends alice)" by (simp add: alice_def)
  from route_friends_round_trip [where bcrypt_hash = toy_hash and castObjectId = toy_cast,
      OF c1 c3 h1 h2] c1 c3 h1 h2 n
  show ?thesis by simp
qed

section \<open>Responses of the attach routes\<close>

text \<open>
  C6 as the claim states it fails: \<^verbatim>\<open>POST /thoughts/5/reactions\<close> answers 201 with the
  created Reaction as the body, not with the updated Thought 5.
\<close>

theorem attach_body_counterexample:
  "findById (Thoughts thoughts_db) 5 = Some post5
   \<and> fst (post_reactions 1000 12 5 hi_body thoughts_db)
       = Inr \<lparr>status = 201, body = ReactionDoc 12 hi\<rparr>
   \<and> findById (Thoughts (snd (post_reactions 1000 12 5 hi_body thoughts_db))) 5
       = Some (post5\<lparr>reactions := [8, 12]\<rparr>)
   \<and> fst (post_reactions 1000 12 5 hi_body thoughts_db)
       \<noteq> Inr \<lparr>status = 201, body = ThoughtDoc 5 (post5\<lparr>reactions := [8, 12]\<rparr>)\<rparr>"
  by (simp add: post_reactions_def Reaction_create_def Thought_save_def Thought_validate_def
      insertOne_def replaceOne_def findById_def push_def required_def str_def Let_def
      thoughts_db_def hi_body_def hi_def post5_def post6_def)

text \<open>
  C6, amended. A successful \<^verbatim>\<open>POST /users/:userId/friends/:friendId\<close> answers 201 with
  the updated User (the stored document, \<open>friendId\<close> appended to its friends); a
  successful \<^verbatim>\<open>POST /thoughts/:thoughtId/reactions\<close> answers 201 with the created
  Reaction (the stored document), while the Thought has the new id appended.
\<close>

theorem attach_responses:
  "(post_friends bcrypt_hash userId friendId s = (Inr r, s') \<longrightarrow>
      status r = 201 \<and>
      (\<exists>u u'. findById (Users s) userId = Some u \<and> findById (Users s') userId = Some u' \<and>
              friends u' = friends u @ [friendId] \<and> body r = UserDoc userId u'))
   \<and> (post_reactions now newId thoughtId b s = (Inr r, s') \<longrightarrow>
      status r = 201 \<and>
      (\<exists>x t t'. findById (Reactions s') newId = Some x \<and> body r = ReactionDoc newId x \<and>
              findById (Thoughts s) thoughtId = Some t \<and>
              findById (Thoughts s') thoughtId = Some t' \<and>
              reactions t' = reactions t @ [newId]))"
proof (rule conjI; rule impI)
  assume a: "post_friends bcrypt_hash userId friendId s = (Inr r, s')"
  then obtain u where u: "findById (Users s) userId = Some u"
    by (auto simp: post_friends_def split: option.splits)
  let ?u' = "u\<lparr>friends := push (friends u) friendId\<rparr>"
  from a u have r: "r = \<lparr>status = 201, body = UserDoc userId ?u'\<rparr>"
    and s': "s' = s\<lparr>Users := replaceOne (Users s) userId ?u'\<rparr>"
    by (auto simp: post_friends_def User_save_def userSchema_pre_save_def Let_def
             split: if_splits)
  from s' u have "findById (Users s') userId = Some ?u'"
    by (simp add: findById_replaceOne)
  with r u show "status r = 201 \<and>
      (\<exists>u u'. findById (Users s) userId = Some u \<and> findById (Users s') userId = Some u' \<and>
              friends u' = friends u @ [friendId] \<and> body r = UserDoc userId u')"
    by (simp add: push_def)
next
  assume a: "post_reactions now newId thoughtId b s = (Inr r, s')"
  then obtain x s1 where c: "Reaction_create now newId b s = Inr (x, s1)"
    by (auto simp: post_reactions_def split: sum.splits)
  from a c obtain t where t: "findById (Thoughts s) thoughtId = Some t"
    by (auto simp: post_reactions_def split: option.splits)
  let ?t' = "t\<lparr>reactions := push (reactions t) newId\<rparr>"
  from a c t have r: "r = \<lparr>status = 201, body = ReactionDoc newId x\<rparr>"
    and s': "s' = s1\<lparr>Thoughts := replaceOne (Thoughts s1) thoughtId ?t'\<rparr>"
    by (auto simp: post_reactions_def Thought_save_def split: if_splits)
  from c obtain c' where ins: "insertOne (Reactions s) newId x = Inr c'"
    and s1: "s1 = s\<lparr>Reactions := c'\<rparr>"
    by (auto simp: Reaction_create_def Let_def split: if_splits sum.splits)
  from ins s1 s' have fx: "findById (Reactions s') newId = Some x"
    by (simp add: findById_insertOne)
  from s' s1 t have ft: "findById (Thoughts s') thoughtId = Some ?t'"
    by (simp add: findById_replaceOne)
  from r fx t ft show "status r = 201 \<and>
      (\<exists>x t t'. findById (Reactions s') newId = Some x \<and> body r = ReactionDoc newId x \<and>
              findById (Thoughts s) thoughtId = Some t \<and>
              findById (Thoughts s') thoughtId = Some t' \<and>
              reactions t' = reactions t @ [newId])"
    by (simp add: push_def)
qed

theorem attach_responses_witness:
  "post_friends toy_hash 1 3 alice_db
     = (Inr \<lparr>status = 201, body = UserDoc 1 (alice\<lparr>friends := [2, 3]\<rparr>)\<rparr>,
        alice_db\<lparr>Users := [(1, alice\<lparr>friends := [2, 3]\<rparr>)]\<rparr>)
   \<and> (\<exists>u u'. findById (Users alice_db) 1 = Some u
         \<and> findById (Users (alice_db\<lparr>Users := [(1, alice\<lparr>friends := [2, 3]\<rparr>)]\<rparr>)) 1 = Some u'
         \<and> friends u' = friends u @ [3]
         \<and> UserDoc 1 (alice\<lparr>friends := [2, 3]\<rparr>) = UserDoc 1 u')
   \<and> post_reactions 1000 12 5 hi_body thoughts_db
     = (Inr \<lparr>status = 201, body = ReactionDoc 12 hi\<rparr>,
        thoughts_db\<lparr>Thoughts := [(5, post5\<lparr>reactions := [8, 12]\<rparr>), (6, post6)],
                    Reactions := [(8, wow), (9, wow), (12, hi)]\<rparr>)
   \<and> (\<exists>x t t'.
         findById (Reactions (thoughts_db\<lparr>Thoughts := [(5, post5\<lparr>reactions := [8, 12]\<rparr>), (6, post6)],
                    Reactions := [(8, wow), (9, wow), (12, hi)]\<rparr>)) 12 = Some x
         \<and> ReactionDoc 12 hi = ReactionDoc 12 x
         \<and> findById (Thoughts thoughts_db) 5 = Some t
         \<and> findById (Thoughts (thoughts_db\<lparr>Thoughts := [(5, post5\<lparr>reactions := [8, 12]\<rparr>), (6, post6)],
                    Reactions := [(8, wow), (9, wow), (12, hi)]\<rparr>)) 5 = Some t'
         \<and> reactions t' = reactions t @ [12])"
proof -
  note a = attach_responses [where bcrypt_hash = toy_hash and userId = 1 and friendId = 3
      and s = alice_db and r = "\<lparr>status = 201, body = UserDoc 1 (alice\<lparr>friends := [2, 3]\<rparr>)\<rparr>"
      and s' = "alice_db\<lparr>Users := [(1, alice\<lparr>friends := [2, 3]\<rparr>)]\<rparr>", THEN conjunct1, rule_format,
      OF post_friends_alice]
  note b = attach_responses [where now = 1000 and newId = 12 and thoughtId = 5 and b = hi_body
      and s = thoughts_db and r = "\<lparr>status = 201, body = ReactionDoc 12 hi\<rparr>"
      and s' = "thoughts_db\<lparr>Thoughts := [(5, post5\<lparr>reactions := [8, 12]\<rparr>), (6, post6)],
                    Reactions := [(8, wow), (9, wow), (12, hi)]\<rparr>", THEN conjunct2, rule_format,
      OF post_reactions_hi]
  from a b post_friends_alice post_reactions_hi show ?thesis by simp
qed

section \<open>Thoughts and reactions\<close>

text \<open>
  C7. \<^verbatim>\<open>DELETE /thoughts/:thoughtId\<close> on a thought \<open>t\<close> answers 204 and removes the
  thought only: the reactions and users collections are unchanged, so every persisted
  reaction that \<open>t\<close> referenced is still found by its id, and every other thought is kept.
\<close>

theorem delete_thoughts_no_cascade:
  assumes "findById (Thoughts s) thoughtId = Some t"
    and "r \<in> set (reactions t)"
    and "findById (Reactions s) r = Some x"
  shows "\<exists>s'. delete_thoughts thoughtId s = (Inr \<lparr>status = 204, body = NoBody\<rparr>, s')
            \<and> findById (Thoughts s') thoughtId = None
            \<and> findById (Reactions s') r = Some x
            \<and> Reactions s' = Reactions s \<and> Users s' = Users s
            \<and> (\<forall>j. j \<noteq> thoughtId \<longrightarrow> findById (Thoughts s') j = findById (Thoughts s) j)"
  using assms by (simp add: delete_thoughts_def findById_deleteOne)

theorem delete_thoughts_no_cascade_witness:
  "findById (Thoughts thoughts_db) 5 = Some post5 \<and> 8 \<in> set (reactions post5)
   \<and> findById (Reactions thoughts_db) 8 = Some wow
   \<and> (\<exists>s'. delete_thoughts 5 thoughts_db = (Inr \<lparr>status = 204, body = NoBody\<rparr>, s')
            \<and> findById (Thoughts s') 5 = None
            \<and> findById (Reactions s') 8 = Some wow
            \<and> Reactions s' = Reactions thoughts_db \<and> Users s' = Users thoughts_db
            \<and> (\<forall>j. j \<noteq> 5 \<longrightarrow> findById (Thoughts s') j = findById (Thoughts thoughts_db) j))"
proof -
  have h1: "findById (Thoughts thoughts_db) 5 = Some post5"
    by (simp add: findById_def thoughts_db_def)
  have h2: "8 \<in> set (reactions post5)" by (simp add: post5_def)
  have h3: "findById (Reactions thoughts_db) 8 = Some wow"
    by (simp add: findById_def thoughts_db_def)
  from delete_thoughts_no_cascade [OF h1 h2 h3] h1 h2 h3 show ?thesis by simp
qed

text \<open>
  C9 as the claim states it fails: \<^verbatim>\<open>POST /thoughts/7/reactions\<close> with a valid body on a
  store without thought 7 throws a \<open>TypeError\<close>, not a \<open>NotFoundError\<close>, and the new
  reaction 12 has been persisted by then.
\<close>

theorem post_reactions_absent_counterexample:
  "findById (Thoughts thoughts_db) 7 = None
   \<and> post_reactions 1000 12 7 hi_body thoughts_db
       = (Inl TypeError, thoughts_db\<lparr>Reactions := [(8, wow), (9, wow), (12, hi)]\<rparr>)
   \<and> fst (post_reactions 1000 12 7 hi_body thoughts_db) \<noteq> Inl NotFoundError"
  by (simp add: post_reactions_def Reaction_create_def insertOne_def findById_def
      required_def str_def Let_def thoughts_db_def hi_body_def hi_def)

text \<open>
  C9, amended. Let the body pass validation and the id of the new reaction be absent
  from the reactions collection. When \<^verbatim>\<open>thoughtId\<close> is not an ObjectId, the handler
  throws a \<open>CastError\<close> and nothing is created. When it is an ObjectId absent from the
  thoughts collection, the handler fails with a \<open>TypeError\<close>, the Reaction being created
  and persisted before the failure and the thoughts left as they were. When it is the
  id of a thought that passes the validation run by \<^verbatim>\<open>thought.save()\<close>, the handler
  answers 201, creates the Reaction and appends its id at the end of the thought's
  \<open>reactions\<close>, the earlier references kept in order.
\<close>

theorem route_post_reactions_cases:
  assumes "required (b_reactionBody b)" and "required (b_reaction_username b)"
    and "newId \<notin> set (map fst (Reactions s))"
  shows "(castObjectId thoughtId = None \<longrightarrow>
            route_post_reactions now newId castObjectId thoughtId b s = (Inl CastError, s))
       \<and> (\<forall>i. castObjectId thoughtId = Some i \<and> findById (Thoughts s) i = None \<longrightarrow>
            (\<exists>x s'. route_post_reactions now newId castObjectId thoughtId b s
                       = (Inl TypeError, s')
                  \<and> findById (Reactions s') newId = Some x
                  \<and> reactionBody x = str (b_reactionBody b)
                  \<and> Thoughts s' = Thoughts s))
       \<and> (\<forall>i t. castObjectId thoughtId = Some i \<and> findById (Thoughts s) i = Some t
                  \<and> Thought_validate t \<longrightarrow>
            (\<exists>x s'. route_post_reactions now newId castObjectId thoughtId b s
                       = (Inr \<lparr>status = 201, body = ReactionDoc newId x\<rparr>, s')
                  \<and> findById (Reactions s') newId = Some x
                  \<and> reactionBody x = str (b_reactionBody b)
                  \<and> findById (Thoughts s') i = Some (t\<lparr>reactions := reactions t @ [newId]\<rparr>)))"
proof (intro conjI allI impI)
  assume "castObjectId thoughtId = None"
  then show "route_post_reactions now newId castObjectId thoughtId b s = (Inl CastError, s)"
    by (simp add: route_post_reactions_def)
next
  fix i assume a: "castObjectId thoughtId = Some i \<and> findById (Thoughts s) i = None"
  with post_reactions_cases_on_ids [OF assms, of i now, THEN conjunct1]
  show "\<exists>x s'. route_post_reactions now newId castObjectId thoughtId b s = (Inl TypeError, s')
                  \<and> findById (Reactions s') newId = Some x
                  \<and> reactionBody x = str (b_reactionBody b)
                  \<and> Thoughts s' = Thoughts s"
    by (simp add: route_post_reactions_cast)
next
  fix i t assume a: "castObjectId thoughtId = Some i \<and> findById (Thoughts s) i = Some t
                  \<and> Thought_validate t"
  with post_reactions_cases_on_ids [OF assms, of i now, THEN conjunct2, rule_format, of t]
  show "\<exists>x s'. route_post_reactions now newId castObjectId thoughtId b s
                       = (Inr \<lparr>status = 201, body = ReactionDoc newId x\<rparr>, s')
                  \<and> findById (Reactions s') newId = Some x
                  \<and> reactionBody x = str (b_reactionBody b)
                  \<and> findById (Thoughts s') i = Some (t\<lparr>reactions := reactions t @ [newId]\<rparr>)"
    by (simp add: route_post_reactions_cast)
qed

theorem route_post_reactions_cases_witness:
  "required (b_reactionBody hi_body) \<and> required (b_reaction_username hi_body)
   \<and> 12 \<notin> set (map fst (Reactions thoughts_db))
   \<and> toy_cast ''abc'' = None
   \<and> toy_cast (hex_id ''07'') = Some 7 \<and> findById (Thoughts thoughts_db) 7 = None
   \<and> toy_cast (hex_id ''05'') = Some 5 \<and> findById (Thoughts thoughts_db) 5 = Some post5
   \<and> Thought_validate post5
   \<and> route_post_reactions 1000 12 toy_cast ''abc'' hi_body thoughts_db
       = (Inl CastError, thoughts_db)
   \<and> (\<exists>x s'. route_post_reactions 1000 12 toy_cast (hex_id ''07'') hi_body thoughts_db
                 = (Inl TypeError, s')
          \<and> findById (Reactions s') 12 = Some x
          \<and> reactionBody x = str (b_reactionBody hi_body)
          \<and> Thoughts s' = Thoughts thoughts_db)
   \<and> (\<exists>x s'. route_post_reactions 1000 12 toy_cast (hex_id ''05'') hi_body thoughts_db
                 = (Inr \<lparr>status = 201, body = ReactionDoc 12 x\<rparr>, s')
          \<and> findById (Reactions s') 12 = Some x
          \<and> reactionBody x = str (b_reactionBody hi_body)
          \<and> findById (Thoughts s') 5 = Some (post5\<lparr>reactions := reactions post5 @ [12]\<rparr>))"
proof -
  have h1: "required (b_reactionBody hi_body)" by (simp add: required_def hi_body_def)
  have h2: "required (b_reaction_username hi_body)" by (simp add: required_def hi_body_def)
  have h3: "12 \<notin> set (map fst (Reactions thoughts_db))" by (simp add: thoughts_db_def)
  have m: "toy_cast ''abc'' = None" by (rule toy_cast_hex_id)
  have a: "toy_cast (hex_id ''07'') = Some 7 \<and> findById (Thoughts thoughts_db) 7 = None"
    by (simp add: toy_cast_hex_id findById_def thoughts_db_def)
  have p: "toy_cast (hex_id ''05'') = Some 5 \<and> findById (Thoughts thoughts_db) 5 = Some post5
       \<and> Thought_validate post5"
    by (simp add: toy_cast_hex_id findById_def thoughts_db_def Thought_validate_def post5_def)
  note c = route_post_reactions_cases [OF h1 h2 h3, where castObjectId = toy_cast and now = 1000]
  note bad = c [where thoughtId = "''abc''", THEN conjunct1, rule_format, OF m]
  note absent = c [where thoughtId = "hex_id ''07''", THEN conjunct2, THEN conjunct1,
      rule_format, OF a]
  note present = c [where thoughtId = "hex_id ''05''", THEN conjunct2, THEN conjunct2,
      rule_format, OF p]
  from bad absent present h1 h2 h3 m a p show ?thesis by simp
qed

text \<open>
  C10 as the claim states it fails: after \<^verbatim>\<open>PUT /thoughts/5\<close> with the body
  \<^verbatim>\<open>{thoughtText: ""}\<close>, thought 5 exists and does not reference reaction 9, yet
  \<^verbatim>\<open>DELETE /thoughts/5/reactions/9\<close> throws a \<open>ValidationError\<close> from \<^verbatim>\<open>thought.save()\<close>;
  reaction 9 is still in the collection and no 204 is sent.
\<close>

theorem delete_reactions_invalid_thought_counterexample:
  "put_thoughts 5 blank_text_body thoughts_db
     = (Inr \<lparr>status = 200, body = ThoughtDoc 5 (post5\<lparr>thoughtText := []\<rparr>)\<rparr>, blank_db)
   \<and> findById (Thoughts blank_db) 5 = Some (post5\<lparr>thoughtText := []\<rparr>)
   \<and> reactions (post5\<lparr>thoughtText := []\<rparr>) = [8]
   \<and> findById (Reactions blank_db) 9 = Some wow
   \<and> delete_reactions 5 9 blank_db = (Inl ValidationError, blank_db)
   \<and> findById (Reactions (snd (delete_reactions 5 9 blank_db))) 9 = Some wow"
  by (simp add: put_thoughts_def Thought_findByIdAndUpdate_def set_thought_def
      delete_reactions_def Thought_save_def Thought_validate_def findById_def replaceOne_def
      pull_def thoughts_db_def blank_db_def blank_text_body_def post5_def post6_def)

text \<open>
  C10, amended. Let \<^verbatim>\<open>thoughtId\<close> and \<^verbatim>\<open>reactionId\<close> be ObjectIds, and let the thought
  exist and pass the validation run by \<^verbatim>\<open>thought.save()\<close>. When \<open>reactionId\<close> is not in
  the thought's \<open>reactions\<close>, \<^verbatim>\<open>DELETE /thoughts/:thoughtId/reactions/:reactionId\<close>
  answers 204, leaves the thought as it was, and deletes the Reaction with that id from
  the reactions collection; no other reaction is touched.
\<close>

theorem route_delete_reactions_non_member:
  assumes "castObjectId thoughtId = Some i" and "castObjectId reactionId = Some r"
    and "findById (Thoughts s) i = Some t" and "Thought_validate t"
    and "r \<notin> set (reactions t)"
  shows "\<exists>s'. route_delete_reactions castObjectId thoughtId reactionId s
                 = (Inr \<lparr>status = 204, body = NoBody\<rparr>, s')
            \<and> findById (Reactions s') r = None
            \<and> findById (Thoughts s') i = Some t
            \<and> (\<forall>j. j \<noteq> r \<longrightarrow> findById (Reactions s') j = findById (Reactions s) j)"
  using delete_reactions_non_member_on_ids [OF assms(3,4,5)] assms(1,2)
  by (simp add: route_delete_reactions_cast)

theorem route_delete_reactions_non_member_witness:
  "toy_cast (hex_id ''05'') = Some 5 \<and> toy_cast (hex_id ''09'') = Some 9
   \<and> findById (Thoughts thoughts_db) 5 = Some post5 \<and> Thought_validate post5
   \<and> 9 \<notin> set (reactions post5) \<and> findById (Reactions thoughts_db) 9 = Some wow
   \<and> (\<exists>s'. route_delete_reactions toy_cast (hex_id ''05'') (hex_id ''09'') thoughts_db
               = (Inr \<lparr>status = 204, body = NoBody\<rparr>, s')
          \<and> findById (Reactions s') 9 = None
          \<and> findById (Thoughts s') 5 = Some post5
          \<and> (\<forall>j. j \<noteq> 9 \<longrightarrow> findById (Reactions s') j = findById (Reactions thoughts_db) j))"
proof -
  have c5: "toy_cast (hex_id ''05'') = Some 5" and c9: "toy_cast (hex_id ''09'') = Some 9"
    by (rule toy_cast_hex_id)+
  have h1: "findById (Thoughts thoughts_db) 5 = Some post5"
    by (simp add: findById_def thoughts_db_def)
  have h2: "Thought_validate post5" by (simp add: Thought_validate_def post5_def)
  have h3: "9 \<notin> set (reactions post5)" by (simp add: post5_def)
  have h4: "findById (Reactions thoughts_db) 9 = Some wow"
    by (simp add: findById_def thoughts_db_def)
  from route_delete_reactions_non_member [where castObjectId = toy_cast, OF c5 c9 h1 h2 h3]
    c5 c9 h1 h2 h3 h4
  show ?thesis by simp
qed

text \<open>
  C4 as the claim states it fails, twice. After \<^verbatim>\<open>PUT /thoughts/5\<close> with the body
  \<^verbatim>\<open>{thoughtText: ""}\<close>, thought 5 references reaction 8, yet
  \<^verbatim>\<open>DELETE /thoughts/5/reactions/8\<close> throws a \<open>ValidationError\<close> and removes nothing.
  And after \<^verbatim>\<open>DELETE /thoughts/6/reactions/8\<close>, thought 5 still holds the reference 8 to
  a reaction that is gone; adding a reaction whose body carries \<^verbatim>\<open>_id\<close> 8 to thought 5
  and removing reaction 8 again, both successful, leaves thought 5 with no reactions,
  one fewer than before the pair.
\<close>

theorem reaction_add_remove_counterexample:
  "put_thoughts 5 blank_text_body thoughts_db
     = (Inr \<lparr>status = 200, body = ThoughtDoc 5 (post5\<lparr>thoughtText := []\<rparr>)\<rparr>, blank_db)
   \<and> map_option reactions (findById (Thoughts blank_db) 5) = Some [8]
   \<and> delete_reactions 5 8 blank_db = (Inl ValidationError, blank_db)
   \<and> findById (Reactions blank_db) 8 = Some wow
   \<and> delete_reactions 6 8 thoughts_db = (Inr \<lparr>status = 204, body = NoBody\<rparr>, dangling_db)
   \<and> map_option reactions (findById (Thoughts dangling_db) 5) = Some [8]
   \<and> fst (post_reactions 1000 8 5 hi_body dangling_db)
       = Inr \<lparr>status = 201, body = ReactionDoc 8 hi\<rparr>
   \<and> fst (delete_reactions 5 8 (snd (post_reactions 1000 8 5 hi_body dangling_db)))
       = Inr \<lparr>status = 204, body = NoBody\<rparr>
   \<and> map_option reactions
        (findById (Thoughts (snd (delete_reactions 5 8
                                    (snd (post_reactions 1000 8 5 hi_body dangling_db))))) 5)
       = Some []"
  by (simp add: put_thoughts_def Thought_findByIdAndUpdate_def set_thought_def
      delete_reactions_def post_reactions_def Reaction_create_def Thought_save_def
      Thought_validate_def insertOne_def deleteOne_def findById_def replaceOne_def
      push_def pull_def required_def str_def Let_def
      thoughts_db_def blank_db_def dangling_db_def blank_text_body_def hi_body_def hi_def
      post5_def post6_def)

text \<open>
  C4, amended. Let \<^verbatim>\<open>thoughtId\<close> be the ObjectId of a thought \<open>t\<close> that passes the
  validation run by \<^verbatim>\<open>thought.save()\<close>. Removing a reaction whose id is an ObjectId
  \<open>r\<close> referenced by \<open>t\<close> answers 204, leaves no reference to \<open>r\<close> in the thought
  and no Reaction \<open>r\<close> in the collection. Adding a reaction (body passing validation, its
  id neither in the reactions collection nor among the references of \<open>t\<close>) and then
  removing that same id gives the thought its prior \<open>reactions\<close> back, so also the prior
  length, and looking the removed id up in the reactions collection finds nothing.
\<close>

theorem route_reaction_add_remove:
  assumes "castObjectId thoughtId = Some i"
    and "findById (Thoughts s) i = Some t" and "Thought_validate t"
  shows "(\<forall>r. castObjectId reactionId = Some r \<and> r \<in> set (reactions t) \<longrightarrow>
            (\<exists>t' s'. route_delete_reactions castObjectId thoughtId reactionId s
                        = (Inr \<lparr>status = 204, body = NoBody\<rparr>, s')
                   \<and> findById (Thoughts s') i = Some t'
                   \<and> r \<notin> set (reactions t')
                   \<and> findById (Reactions s') r = None))
       \<and> (required (b_reactionBody b) \<and> required (b_reaction_username b)
            \<and> newId \<notin> set (map fst (Reactions s)) \<and> newId \<notin> set (reactions t)
            \<and> castObjectId reactionId = Some newId \<longrightarrow>
            (\<exists>x s1 t2 s2.
                 route_post_reactions now newId castObjectId thoughtId b s
                   = (Inr \<lparr>status = 201, body = ReactionDoc newId x\<rparr>, s1)
               \<and> findById (Reactions s1) newId = Some x
               \<and> route_delete_reactions castObjectId thoughtId reactionId s1
                   = (Inr \<lparr>status = 204, body = NoBody\<rparr>, s2)
               \<and> findById (Thoughts s2) i = Some t2
               \<and> reactions t2 = reactions t
               \<and> length (reactions t2) = length (reactions t)
               \<and> findById (Reactions s2) newId = None))"
proof (intro conjI allI impI)
  fix r assume a: "castObjectId reactionId = Some r \<and> r \<in> set (reactions t)"
  with reaction_add_remove_on_ids [OF assms(2,3), THEN conjunct1, rule_format, of r] assms(1)
  show "\<exists>t' s'. route_delete_reactions castObjectId thoughtId reactionId s
                        = (Inr \<lparr>status = 204, body = NoBody\<rparr>, s')
                   \<and> findById (Thoughts s') i = Some t'
                   \<and> r \<notin> set (reactions t')
                   \<and> findById (Reactions s') r = None"
    by (simp add: route_delete_reactions_cast)
next
  assume a: "required (b_reactionBody b) \<and> required (b_reaction_username b)
            \<and> newId \<notin> set (map fst (Reactions s)) \<and> newId \<notin> set (reactions t)
            \<and> castObjectId reactionId = Some newId"
  then have f: "required (b_reactionBody b) \<and> required (b_reaction_username b)
            \<and> newId \<notin> set (map fst (Reactions s)) \<and> newId \<notin> set (reactions t)"
    by simp
  from reaction_add_remove_on_ids [OF assms(2,3), THEN conjunct2, rule_format, OF f, of now] a assms(1)
  show "\<exists>x s1 t2 s2.
                 route_post_reactions now newId castObjectId thoughtId b s
                   = (Inr \<lparr>status = 201, body = ReactionDoc newId x\<rparr>, s1)
               \<and> findById (Reactions s1) newId = Some x
               \<and> route_delete_reactions castObjectId thoughtId reactionId s1
                   = (Inr \<lparr>status = 204, body = NoBody\<rparr>, s2)
               \<and> findById (Thoughts s2) i = Some t2
               \<and> reactions t2 = reactions t
               \<and> length (reactions t2) = length (reactions t)
               \<and> findById (Reactions s2) newId = None"
    by (simp add: route_post_reactions_cast route_delete_reactions_cast)
qed

theorem route_reaction_add_remove_witness:
  "toy_cast (hex_id ''05'') = Some 5
   \<and> findById (Thoughts thoughts_db) 5 = Some post5 \<and> Thought_validate post5
   \<and> toy_cast (hex_id ''08'') = Some 8 \<and> 8 \<in> set (reactions post5)
   \<and> required (b_reactionBody hi_body) \<and> required (b_reaction_username hi_body)
   \<and> 12 \<notin> set (map fst (Reactions thoughts_db)) \<and> 12 \<notin> set (reactions post5)
   \<and> toy_cast (hex_id ''0c'') = Some 12
   \<and> (\<exists>t' s'. route_delete_reactions toy_cast (hex_id ''05'') (hex_id ''08'') thoughts_db
                  = (Inr \<lparr>status = 204, body = NoBody\<rparr>, s')
            \<and> findById (Thoughts s') 5 = Some t' \<and> 8 \<notin> set (reactions t')
            \<and> findById (Reactions s') 8 = None)
   \<and> (\<exists>x s1 t2 s2.
          route_post_reactions 1000 12 toy_cast (hex_id ''05'') hi_body thoughts_db
            = (Inr \<lparr>status = 201, body = ReactionDoc 12 x\<rparr>, s1)
        \<and> findById (Reactions s1) 12 = Some x
        \<and> route_delete_reactions toy_cast (hex_id ''05'') (hex_id ''0c'') s1
            = (Inr \<lparr>status = 204, body = NoBody\<rparr>, s2)
        \<and> findById (Thoughts s2) 5 = Some t2
        \<and> reactions t2 = reactions post5
        \<and> length (reactions t2) = length (reactions post5)
        \<and> findById (Reactions s2) 12 = None)"
proof -
  have c5: "toy_cast (hex_id ''05'') = Some 5" by (rule toy_cast_hex_id)
  have h1: "findById (Thoughts thoughts_db) 5 = Some post5"
    by (simp add: findById_def thoughts_db_def)
  have h2: "Thought_validate post5" by (simp add: Thought_validate_def post5_def)
  have m: "toy_cast (hex_id ''08'') = Some 8 \<and> 8 \<in> set (reactions post5)"
    by (simp add: toy_cast_hex_id post5_def)
  have f: "required (b_reactionBody hi_body) \<and> required (b_reaction_username hi_body)
     \<and> 12 \<notin> set (map fst (Reactions thoughts_db)) \<and> 12 \<notin> set (reactions post5)
     \<and> toy_cast (hex_id ''0c'') = Some 12"
    by (simp add: toy_cast_hex_id required_def hi_body_def thoughts_db_def post5_def)
  note c = route_reaction_add_remove [where castObjectId = toy_cast, OF c5 h1 h2]
  note remove = c [where reactionId = "hex_id ''08''", THEN conjunct1, rule_format, OF m]
  note both = c [where reactionId = "hex_id ''0c''" and newId = 12 and b = hi_body
      and now = 1000, THEN conjunct2, rule_format, OF f]
  from remove both c5 h1 h2 m f show ?thesis by simp
qed

section \<open>The authentication gate\<close>

text \<open>
  C8 as the claim states it fails: from an empty \<^verbatim>\<open>Authorization\<close> header, and from the
  header \<^verbatim>\<open>"Bearer "\<close>, no bearer token can be extracted, yet the middleware does not send
  401: the token is the empty string, not \<^verbatim>\<open>null\<close>, it goes to \<^verbatim>\<open>jwt.verify\<close>, and the
  rejection sends 403.
\<close>

theorem authenticateToken_empty_token_counterexample:
  "header_token (Some []) = Some []
   \<and> toy_verify [] (Some ''s3cret'') = None
   \<and> authenticateToken toy_verify (Some ''s3cret'') \<lparr>authorization = Some [], user = None\<rparr>
       = SendStatus 403
   \<and> header_token (Some ''Bearer '') = Some []
   \<and> authenticateToken toy_verify (Some ''s3cret'')
        \<lparr>authorization = Some ''Bearer '', user = None\<rparr> = SendStatus 403"
  by (simp add: authenticateToken_def header_token_def toy_verify_def)

text \<open>
  C8, amended. The middleware sends 401 exactly when the \<^verbatim>\<open>Authorization\<close> header is
  absent or is a non-empty string without a space. In every other case a token goes to
  \<^verbatim>\<open>jwt.verify\<close>: the empty string for an empty header, and otherwise the text between
  the first space and the next one (or the end), which may be empty. When the
  verification fails the middleware sends 403; when it succeeds the middleware calls
  \<^verbatim>\<open>next()\<close> on the request with \<^verbatim>\<open>req.user\<close> set to the decoded payload.
\<close>

theorem authenticateToken_cases:
  "(authorization req = None \<longrightarrow>
      authenticateToken jwt_verify JWT_SECRET req = SendStatus 401)
   \<and> (\<forall>a. authorization req = Some a \<and> a \<noteq> [] \<and> CHR '' '' \<notin> set a \<longrightarrow>
      authenticateToken jwt_verify JWT_SECRET req = SendStatus 401)
   \<and> (authorization req = Some [] \<longrightarrow>
      (jwt_verify [] JWT_SECRET = None \<longrightarrow>
         authenticateToken jwt_verify JWT_SECRET req = SendStatus 403)
      \<and> (\<forall>decoded. jwt_verify [] JWT_SECRET = Some decoded \<longrightarrow>
         authenticateToken jwt_verify JWT_SECRET req = Next (req\<lparr>user := Some decoded\<rparr>)))
   \<and> (\<forall>scheme rest. authorization req = Some (scheme @ CHR '' '' # rest)
                     \<and> CHR '' '' \<notin> set scheme \<longrightarrow>
      (jwt_verify (takeWhile (\<lambda>x. x \<noteq> CHR '' '') rest) JWT_SECRET = None \<longrightarrow>
         authenticateToken jwt_verify JWT_SECRET req = SendStatus 403)
      \<and> (\<forall>decoded. jwt_verify (takeWhile (\<lambda>x. x \<noteq> CHR '' '') rest) JWT_SECRET = Some decoded \<longrightarrow>
         authenticateToken jwt_verify JWT_SECRET req = Next (req\<lparr>user := Some decoded\<rparr>)))
   \<and> (authenticateToken jwt_verify JWT_SECRET req = SendStatus 401 \<longleftrightarrow>
        authorization req = None
        \<or> (\<exists>a. authorization req = Some a \<and> a \<noteq> [] \<and> CHR '' '' \<notin> set a))"
proof -
  have absent: "authorization req = None \<Longrightarrow>
      authenticateToken jwt_verify JWT_SECRET req = SendStatus 401"
    by (simp add: authenticateToken_def header_token_absent)
  have one: "authenticateToken jwt_verify JWT_SECRET req = SendStatus 401"
    if "authorization req = Some a \<and> a \<noteq> [] \<and> CHR '' '' \<notin> set a" for a
    using that by (simp add: authenticateToken_def header_token_one_field)
  have verified: "authenticateToken jwt_verify JWT_SECRET req
      = (case jwt_verify token JWT_SECRET of
           None \<Rightarrow> SendStatus 403
         | Some decoded \<Rightarrow> Next (req\<lparr>user := Some decoded\<rparr>))"
    if "header_token (authorization req) = Some token" for token
    using that by (simp add: authenticateToken_def)
  have empty: "authorization req = Some [] \<Longrightarrow>
      authenticateToken jwt_verify JWT_SECRET req
      = (case jwt_verify [] JWT_SECRET of
           None \<Rightarrow> SendStatus 403
         | Some decoded \<Rightarrow> Next (req\<lparr>user := Some decoded\<rparr>))"
    by (rule verified) (simp add: header_token_empty)
  have second: "authenticateToken jwt_verify JWT_SECRET req
      = (case jwt_verify (takeWhile (\<lambda>x. x \<noteq> CHR '' '') rest) JWT_SECRET of
           None \<Rightarrow> SendStatus 403
         | Some decoded \<Rightarrow> Next (req\<lparr>user := Some decoded\<rparr>))"
    if "authorization req = Some (scheme @ CHR '' '' # rest) \<and> CHR '' '' \<notin> set scheme"
    for scheme rest
    using that by (intro verified) (simp add: header_token_second_field)
  have only: "authorization req = None
        \<or> (\<exists>a. authorization req = Some a \<and> a \<noteq> [] \<and> CHR '' '' \<notin> set a)"
    if r: "authenticateToken jwt_verify JWT_SECRET req = SendStatus 401"
  proof (cases "authorization req")
    case None
    then show ?thesis by simp
  next
    case (Some a)
    from header_shape [of a] show ?thesis
    proof (elim disjE exE conjE)
      assume "a = []"
      with Some empty r show ?thesis by (auto split: option.splits)
    next
      assume "a \<noteq> []" and "CHR '' '' \<notin> set a"
      with Some show ?thesis by simp
    next
      fix scheme rest
      assume "a = scheme @ CHR '' '' # rest" and "CHR '' '' \<notin> set scheme"
      with Some second [of scheme rest] r show ?thesis by (auto split: option.splits)
    qed
  qed
  show ?thesis
  proof (intro conjI allI impI iffI)
    assume "authorization req = None"
    then show "authenticateToken jwt_verify JWT_SECRET req = SendStatus 401" by (rule absent)
  next
    fix a assume "authorization req = Some a \<and> a \<noteq> [] \<and> CHR '' '' \<notin> set a"
    then show "authenticateToken jwt_verify JWT_SECRET req = SendStatus 401" by (rule one)
  next
    assume "authorization req = Some []" and "jwt_verify [] JWT_SECRET = None"
    then show "authenticateToken jwt_verify JWT_SECRET req = SendStatus 403"
      by (simp add: empty)
  next
    fix decoded
    assume "authorization req = Some []" and "jwt_verify [] JWT_SECRET = Some decoded"
    then show "authenticateToken jwt_verify JWT_SECRET req = Next (req\<lparr>user := Some decoded\<rparr>)"
      by (simp add: empty)
  next
    fix scheme rest
    assume "authorization req = Some (scheme @ CHR '' '' # rest) \<and> CHR '' '' \<notin> set scheme"
      and "jwt_verify (takeWhile (\<lambda>x. x \<noteq> CHR '' '') rest) JWT_SECRET = None"
    then show "authenticateToken jwt_verify JWT_SECRET req = SendStatus 403"
      using second [of scheme rest] by simp
  next
    fix scheme rest decoded
    assume "authorization req = Some (scheme @ CHR '' '' # rest) \<and> CHR '' '' \<notin> set scheme"
      and "jwt_verify (takeWhile (\<lambda>x. x \<noteq> CHR '' '') rest) JWT_SECRET = Some decoded"
    then show "authenticateToken jwt_verify JWT_SECRET req = Next (req\<lparr>user := Some decoded\<rparr>)"
      using second [of scheme rest] by simp
  next
    assume "authenticateToken jwt_verify JWT_SECRET req = SendStatus 401"
    then show "authorization req = None
        \<or> (\<exists>a. authorization req = Some a \<and> a \<noteq> [] \<and> CHR '' '' \<notin> set a)"
      by (rule only)
  next
    assume "authorization req = None
        \<or> (\<exists>a. authorization req = Some a \<and> a \<noteq> [] \<and> CHR '' '' \<notin> set a)"
    then show "authenticateToken jwt_verify JWT_SECRET req = SendStatus 401"
      using absent one by blast
  qed
qed

theorem authenticateToken_cases_witness:
  "authenticateToken toy_verify (Some ''s3cret'') \<lparr>authorization = None, user = None\<rparr>
     = SendStatus 401
   \<and> authenticateToken toy_verify (Some ''s3cret'')
        \<lparr>authorization = Some ''Bearer'', user = None\<rparr> = SendStatus 401
   \<and> toy_verify [] (Some ''s3cret'') = None
   \<and> authenticateToken toy_verify (Some ''s3cret'') \<lparr>authorization = Some [], user = None\<rparr>
       = SendStatus 403
   \<and> toy_verify ''bad'' (Some ''s3cret'') = None
   \<and> authenticateToken toy_verify (Some ''s3cret'')
        \<lparr>authorization = Some ''Bearer bad'', user = None\<rparr> = SendStatus 403
   \<and> toy_verify ''good'' (Some ''s3cret'') = Some ''alice''
   \<and> authenticateToken toy_verify (Some ''s3cret'')
        \<lparr>authorization = Some ''Bearer good'', user = None\<rparr>
       = Next \<lparr>authorization = Some ''Bearer good'', user = Some ''alice''\<rparr>"
proof -
  note c = authenticateToken_cases [where jwt_verify = toy_verify
      and JWT_SECRET = "Some ''s3cret''"]
  have v0: "toy_verify [] (Some ''s3cret'') = None"
    and v1: "toy_verify ''bad'' (Some ''s3cret'') = None"
    and v2: "toy_verify ''good'' (Some ''s3cret'') = Some ''alice''"
    by (simp_all add: toy_verify_def)
  have r0: "authenticateToken toy_verify (Some ''s3cret'')
      \<lparr>authorization = None, user = None\<rparr> = SendStatus 401"
    using c [where req = "\<lparr>authorization = None, user = None\<rparr>", THEN conjunct1] by simp
  have r1: "authenticateToken toy_verify (Some ''s3cret'')
      \<lparr>authorization = Some ''Bearer'', user = None\<rparr> = SendStatus 401"
    using c [where req = "\<lparr>authorization = Some ''Bearer'', user = None\<rparr>",
        THEN conjunct2, THEN conjunct1, rule_format, of "''Bearer''"] by simp
  have r2: "authenticateToken toy_verify (Some ''s3cret'')
      \<lparr>authorization = Some [], user = None\<rparr> = SendStatus 403"
    using c [where req = "\<lparr>authorization = Some [], user = None\<rparr>",
        THEN conjunct2, THEN conjunct2, THEN conjunct1] v0 by simp
  have r3: "authenticateToken toy_verify (Some ''s3cret'')
      \<lparr>authorization = Some ''Bearer bad'', user = None\<rparr> = SendStatus 403"
    using c [where req = "\<lparr>authorization = Some ''Bearer bad'', user = None\<rparr>",
        THEN conjunct2, THEN conjunct2, THEN conjunct2, THEN conjunct1, rule_format,
        of "''Bearer''" "''bad''", THEN conjunct1] v1 by simp
  have r4: "authenticateToken toy_verify (Some ''s3cret'')
      \<lparr>authorization = Some ''Bearer good'', user = None\<rparr>
      = Next \<lparr>authorization = Some ''Bearer good'', user = Some ''alice''\<rparr>"
    using c [where req = "\<lparr>authorization = Some ''Bearer good'', user = None\<rparr>",
        THEN conjunct2, THEN conjunct2, THEN conjunct2, THEN conjunct1, rule_format,
        of "''Bearer''" "''good''", THEN conjunct2, rule_format, of "''alice''"] v2 by simp
  from r0 r1 r2 r3 r4 v0 v1 v2 show ?thesis by simp
qed

end
